theory Spec2Isabelle
  imports Complex_Main "HOL-Library.AList" "HOL-Library.Option_ord"
begin

section \<open>Values, documents and the document store\<close>

text \<open>
  The handlers of \<^verbatim>\<open>main.py\<close> exchange Python dictionaries with a schemaless document
  store. A document is an association list from field names to values; \<open>map_of\<close> is the
  dictionary lookup (\<^verbatim>\<open>d.get(k)\<close>), \<open>AList.update\<close> the assignment of one field.
  A timestamp is a number of microseconds, the resolution of Python's \<^verbatim>\<open>datetime\<close>;
  a \<^verbatim>\<open>float\<close> is read as a real number (only its sign is ever looked at).
\<close>

type_synonym time = int

datatype val =
    VNone
  | VBool bool
  | VStr string
  | VInt int
  | VFloat real
  | VTime time
  | VId nat
  | VDoc "(string \<times> val) list"

type_synonym document = "(string \<times> val) list"

text \<open>Python's truth value of a stored value, as \<^verbatim>\<open>if x\<close> and \<^verbatim>\<open>x and y\<close> test it.\<close>

fun truthy :: "val \<Rightarrow> bool" where
  "truthy VNone = False"
| "truthy (VBool b) = b"
| "truthy (VStr s) = (s \<noteq> [])"
| "truthy (VInt i) = (i \<noteq> 0)"
| "truthy (VFloat r) = (r \<noteq> 0)"
| "truthy (VTime t) = True"
| "truthy (VId i) = True"
| "truthy (VDoc d) = (d \<noteq> [])"

text \<open>
  The store holds, for every collection name, its documents in insertion order, and the
  next identifier it will assign. The module-level handle \<^verbatim>\<open>db\<close> is \<open>None\<close> when no
  connection was established; the truth test \<^verbatim>\<open>if db\<close> of the source is read as
  \<^verbatim>\<open>db is not None\<close>.
\<close>

record store =
  colls :: "string \<Rightarrow> document list"
  next_id :: nat

definition empty_store :: store where
  "empty_store = \<lparr>colls = (\<lambda>_. []), next_id = 0\<rparr>"

datatype error =
    HTTPException nat string
  | ValidationError
  | StoreUnavailable
  | WriteError
  | IOError
  | KeyError string
  | TypeError

type_synonym 'a result = "error + 'a"

subsection \<open>Queries: \<^verbatim>\<open>find(filter).sort(field, -1).limit(n)\<close>\<close>

text \<open>An equality filter matches a document that holds every listed field with that value.\<close>

definition matches :: "document \<Rightarrow> document \<Rightarrow> bool" where
  "matches flt d = list_all (\<lambda>(k, v). map_of d k = Some v) flt"

definition find_docs :: "document list \<Rightarrow> document \<Rightarrow> document list" where
  "find_docs ds flt = filter (matches flt) ds"

text \<open>
  The sort key of a document: its timestamp under the field, \<open>None\<close> (which sorts below
  every timestamp) when the field is missing or holds no timestamp.
\<close>

definition field_time :: "string \<Rightarrow> document \<Rightarrow> time option" where
  "field_time k d = (case map_of d k of Some (VTime t) \<Rightarrow> Some t | _ \<Rightarrow> None)"

text \<open>
  Descending sort by insertion; among equal keys the document inserted into the
  collection first stays first.
\<close>

fun insort_desc :: "string \<Rightarrow> document \<Rightarrow> document list \<Rightarrow> document list" where
  "insort_desc k d [] = [d]"
| "insort_desc k d (e # es) =
     (if field_time k e \<le> field_time k d then d # e # es else e # insort_desc k d es)"

definition sort_desc :: "string \<Rightarrow> document list \<Rightarrow> document list" where
  "sort_desc k ds = foldr (insort_desc k) ds []"

definition limit :: "nat \<Rightarrow> document list \<Rightarrow> document list" where
  "limit n ds = take n ds"

subsection \<open>Updates: \<^verbatim>\<open>update_one(filter, {"$set": fields})\<close>\<close>

definition set_fields :: "document \<Rightarrow> document \<Rightarrow> document" where
  "set_fields upd d = fold (\<lambda>(k, v) acc. AList.update k v acc) upd d"

fun update_first :: "(document \<Rightarrow> bool) \<Rightarrow> (document \<Rightarrow> document) \<Rightarrow> document list \<Rightarrow> document list" where
  "update_first P f [] = []"
| "update_first P f (d # ds) = (if P d then f d # ds else d # update_first P f ds)"

definition update_one :: "string \<Rightarrow> document \<Rightarrow> document \<Rightarrow> store \<Rightarrow> store" where
  "update_one coll flt upd s =
     s\<lparr>colls := (colls s)(coll := update_first (matches flt) (set_fields upd) (colls s coll))\<rparr>"

section \<open>The OTP ledger\<close>

record OTPVerifyRequest =
  v_phone :: string
  v_purpose :: string
  v_code :: string

text \<open>
  Line 105 of \<^verbatim>\<open>main.py\<close>: the newest record of the phone and purpose, as a list of at
  most one document; the empty list when there is no connection.
\<close>

definition otp_recs :: "store option \<Rightarrow> string \<Rightarrow> string \<Rightarrow> document list" where
  "otp_recs db phone purpose =
     (case db of
        Some s \<Rightarrow>
          limit 1 (sort_desc ''created_at''
            (find_docs (colls s ''otprequest'')
               [(''phone'', VStr phone), (''purpose'', VStr purpose)]))
      | None \<Rightarrow> [])"

text \<open>
  Line 111: \<^verbatim>\<open>rec.get("expires_at") and now > rec["expires_at"]\<close>. A missing or falsy
  field skips the test; a truthy value that is no timestamp cannot be compared with one.
\<close>

definition expired :: "time \<Rightarrow> document \<Rightarrow> bool result" where
  "expired now rec =
     (case map_of rec ''expires_at'' of
        None \<Rightarrow> Inr False
      | Some v \<Rightarrow>
          if \<not> truthy v then Inr False
          else (case v of VTime e \<Rightarrow> Inr (now > e) | _ \<Rightarrow> Inl TypeError))"

text \<open>
  \<^verbatim>\<open>verify_otp\<close> reads the clock twice: \<open>now\<^sub>1\<close> for the expiry test and \<open>now\<^sub>2\<close> for
  the \<^verbatim>\<open>updated_at\<close> stamp. It returns its response or the exception raised, and the
  store handle as the call leaves it.
\<close>

definition verify_otp ::
  "time \<Rightarrow> time \<Rightarrow> OTPVerifyRequest \<Rightarrow> store option \<Rightarrow> document result \<times> store option" where
  "verify_otp now1 now2 req db =
     (case otp_recs db (v_phone req) (v_purpose req) of
        [] \<Rightarrow> (Inl (HTTPException 400 ''OTP not found''), db)
      | rec # _ \<Rightarrow>
          if map_of rec ''code'' \<noteq> Some (VStr (v_code req))
          then (Inl (HTTPException 400 ''Invalid OTP''), db)
          else (case expired now1 rec of
                  Inl e \<Rightarrow> (Inl e, db)
                | Inr True \<Rightarrow> (Inl (HTTPException 400 ''OTP expired''), db)
                | Inr False \<Rightarrow>
                    (case map_of rec ''_id'' of
                       None \<Rightarrow> (Inl (KeyError ''_id''), db)
                     | Some i \<Rightarrow>
                         (Inr [(''success'', VBool True)],
                          map_option
                            (update_one ''otprequest'' [(''_id'', i)]
                               [(''verified'', VBool True), (''updated_at'', VTime now2)])
                            db))))"

subsection \<open>Inserting a document\<close>

text \<open>
  Modelled from the spec: \<^verbatim>\<open>create_document\<close> of the module \<^verbatim>\<open>database\<close>, which
  \<^verbatim>\<open>main.py\<close> imports and which is not among the sources. The specification says that it
  inserts a new document into the named collection, tagging it with a creation timestamp,
  and returns a store-assigned unique identifier; it fails with \<open>StoreUnavailable\<close> if no
  connection was established and with \<open>WriteError\<close> on a persistence failure. The clock
  reading \<open>now\<close> and whether the write goes through (\<open>ok\<close>) are inputs. The identifier
  is the store's counter; its rendering as a string is left out.
\<close>

definition create_document ::
  "time \<Rightarrow> bool \<Rightarrow> string \<Rightarrow> document \<Rightarrow> store option \<Rightarrow> nat result \<times> store option" where
  "create_document now ok coll data db =
     (case db of
        None \<Rightarrow> (Inl StoreUnavailable, db)
      | Some s \<Rightarrow>
          if \<not> ok then (Inl WriteError, db)
          else
            (let doc = AList.update ''_id'' (VId (next_id s))
                         (AList.update ''created_at'' (VTime now) data)
             in (Inr (next_id s),
                 Some (s\<lparr>colls := (colls s)(coll := colls s coll @ [doc]),
                          next_id := Suc (next_id s)\<rparr>))))"

subsection \<open>Issuing a code\<close>

record OTPStartRequest =
  s_phone :: string
  s_purpose :: string

text \<open>
  The field constraints of \<^verbatim>\<open>OTPStartRequest\<close>: \<^verbatim>\<open>min_length=10\<close>,
  \<^verbatim>\<open>max_length=15\<close> and the pattern \<^verbatim>\<open>^(franchise|mall)$\<close>. The framework checks them
  before the body of the handler runs. A string is the list of its characters, so that
  \<open>length\<close> stands for Python's \<^verbatim>\<open>len\<close>.
\<close>

definition OTPStartRequest_valid :: "OTPStartRequest \<Rightarrow> bool" where
  "OTPStartRequest_valid req \<longleftrightarrow>
     10 \<le> length (s_phone req) \<and> length (s_phone req) \<le> 15 \<and>
     (s_purpose req = ''franchise'' \<or> s_purpose req = ''mall'')"

definition ten_minutes :: time where
  "ten_minutes = 10 * 60 * 1000000"

text \<open>
  \<^verbatim>\<open>start_otp\<close> reads the clock once (\<open>now\<close>); the insertion reads it again
  (\<open>now_ins\<close>).
\<close>

definition start_otp ::
  "time \<Rightarrow> time \<Rightarrow> bool \<Rightarrow> OTPStartRequest \<Rightarrow> store option \<Rightarrow> document result \<times> store option" where
  "start_otp now now_ins ok req db =
     (if \<not> OTPStartRequest_valid req then (Inl ValidationError, db)
      else
        (let code = ''123456'';
             expires_at = now + ten_minutes
         in case create_document now_ins ok ''otprequest''
                   [(''phone'', VStr (s_phone req)),
                    (''purpose'', VStr (s_purpose req)),
                    (''code'', VStr code),
                    (''verified'', VBool False),
                    (''expires_at'', VTime expires_at)] db of
              (Inl e, db') \<Rightarrow> (Inl e, db')
            | (Inr _, db') \<Rightarrow>
                (Inr [(''success'', VBool True), (''message'', VStr ''OTP sent''),
                      (''demo_code'', VStr code)], db')))"

section \<open>The inquiry submission handlers\<close>

text \<open>
  A payload record is a request body that the framework has already converted to the
  declared field types (presence of the required fields, strings, numbers, the e-mail
  format of the library). \<^verbatim>\<open>FranchisePayload\<close> declares nothing beyond the types.
\<close>

record FranchisePayload =
  f_full_name :: string
  f_email :: string
  f_phone :: string
  f_investment_capacity_lakhs :: real
  f_preferred_cities :: string
  f_city_tier :: string
  f_message :: "string option"
  f_otp_code :: "string option"

definition opt_str :: "string option \<Rightarrow> val" where
  "opt_str x = (case x of None \<Rightarrow> VNone | Some s \<Rightarrow> VStr s)"

definition model_dump :: "FranchisePayload \<Rightarrow> document" where
  "model_dump p =
     [(''full_name'', VStr (f_full_name p)),
      (''email'', VStr (f_email p)),
      (''phone'', VStr (f_phone p)),
      (''investment_capacity_lakhs'', VFloat (f_investment_capacity_lakhs p)),
      (''preferred_cities'', VStr (f_preferred_cities p)),
      (''city_tier'', VStr (f_city_tier p)),
      (''message'', opt_str (f_message p)),
      (''otp_code'', opt_str (f_otp_code p))]"

text \<open>
  The constraints that \<^verbatim>\<open>schemas.py\<close> declares for the stored \<^verbatim>\<open>FranchiseInquiry\<close>, on
  the fields it shares with the payload: the length of the phone number, a capacity that
  is not negative, and one of the two tiers.
\<close>

definition FranchiseInquiry_valid :: "FranchisePayload \<Rightarrow> bool" where
  "FranchiseInquiry_valid p \<longleftrightarrow>
     10 \<le> length (f_phone p) \<and> length (f_phone p) \<le> 15 \<and>
     0 \<le> f_investment_capacity_lakhs p \<and>
     (f_city_tier p = ''Tier 1'' \<or> f_city_tier p = ''Tier 2'')"

text \<open>
  \<^verbatim>\<open>submit_franchise\<close>: the gate \<^verbatim>\<open>if payload.otp_code\<close> is Python's truth test of an
  optional string, false for \<^verbatim>\<open>None\<close> and for the empty string; an exception of the
  verification is raised again as it is.
\<close>

definition submit_franchise ::
  "time \<Rightarrow> time \<Rightarrow> time \<Rightarrow> bool \<Rightarrow> FranchisePayload \<Rightarrow> store option
     \<Rightarrow> document result \<times> store option" where
  "submit_franchise now1 now2 now_ins ok payload db =
     (case (case f_otp_code payload of
              None \<Rightarrow> (Inr [], db)
            | Some c \<Rightarrow>
                if c = [] then (Inr [], db)
                else verify_otp now1 now2
                       \<lparr>v_phone = f_phone payload, v_purpose = ''franchise'', v_code = c\<rparr>
                       db) of
        (Inl e, db') \<Rightarrow> (Inl e, db')
      | (Inr _, db') \<Rightarrow>
          (case create_document now_ins ok ''franchiseinquiry'' (model_dump payload) db' of
             (Inl e, db'') \<Rightarrow> (Inl e, db'')
           | (Inr doc_id, db'') \<Rightarrow>
               (Inr [(''success'', VBool True), (''id'', VId doc_id)], db'')))"

subsection \<open>The mall form and its upload\<close>

type_synonym bytes = "char list"

record UploadFile =
  u_filename :: string
  u_content :: bytes

record MallForm =
  m_contact_name :: string
  m_email :: string
  m_phone :: string
  m_mall_name :: string
  m_location_city :: string
  m_available_space_sqft :: int
  m_message :: "string option"
  m_otp_code :: "string option"
  m_floorplan :: "UploadFile option"

text \<open>The files on disk, by path.\<close>

type_synonym files = "string \<Rightarrow> bytes option"

text \<open>
  What the disk does during an upload, an input of the handler: everything goes through,
  or the directory cannot be made (line 167), or the file cannot be opened (line 170), or
  reading the upload fails once the file has been opened (line 171), or writing fails
  after some bytes of the content (line 172).
\<close>

datatype disk = DiskOk | FailMakedirs | FailOpen | FailRead | FailWrite nat

text \<open>
  Lines 163 to 173 of \<^verbatim>\<open>main.py\<close>, the upload. The string \<open>stamp\<close> is the value of
  \<^verbatim>\<open>datetime.now().strftime('%Y%m%d%H%M%S')\<close>. Opening the file for writing creates it
  empty, or empties it when it exists, before the upload is read whole and written; a
  failure after the opening therefore leaves an empty or partial file behind. The result
  is the metadata (\<^verbatim>\<open>None\<close> without a file part) or the exception, and the files
  afterwards.
\<close>

definition store_upload ::
  "string \<Rightarrow> disk \<Rightarrow> UploadFile option \<Rightarrow> files \<Rightarrow> val result \<times> files" where
  "store_upload stamp disk floorplan fs =
     (case floorplan of
        None \<Rightarrow> (Inr VNone, fs)
      | Some up \<Rightarrow>
          (let upload_dir = ''public'' @ ''/'' @ ''uploads'';
               filename = stamp @ ''_'' @ u_filename up;
               path = upload_dir @ ''/'' @ filename;
               content = u_content up
           in case disk of
                FailMakedirs \<Rightarrow> (Inl IOError, fs)
              | FailOpen \<Rightarrow> (Inl IOError, fs)
              | FailRead \<Rightarrow> (Inl IOError, fs(path \<mapsto> []))
              | FailWrite k \<Rightarrow> (Inl IOError, fs(path \<mapsto> take k content))
              | DiskOk \<Rightarrow>
                  (Inr (VDoc [(''filename'', VStr filename),
                              (''path'', VStr (''/uploads/'' @ filename)),
                              (''size'', VInt (int (length content)))]),
                   fs(path \<mapsto> content))))"

text \<open>Lines 175 to 184, the document of a mall inquiry.\<close>

definition mall_data :: "MallForm \<Rightarrow> val \<Rightarrow> document" where
  "mall_data form file_meta =
     [(''contact_name'', VStr (m_contact_name form)),
      (''email'', VStr (m_email form)),
      (''phone'', VStr (m_phone form)),
      (''mall_name'', VStr (m_mall_name form)),
      (''location_city'', VStr (m_location_city form)),
      (''available_space_sqft'', VInt (m_available_space_sqft form)),
      (''message'', opt_str (m_message form)),
      (''floorplan'', file_meta)]"

text \<open>
  \<^verbatim>\<open>submit_mall\<close>: the same gate with the purpose \<^verbatim>\<open>mall\<close>, then the upload, then the
  document.
\<close>

definition submit_mall ::
  "time \<Rightarrow> time \<Rightarrow> string \<Rightarrow> disk \<Rightarrow> time \<Rightarrow> bool \<Rightarrow> MallForm \<Rightarrow> store option \<times> files
     \<Rightarrow> document result \<times> store option \<times> files" where
  "submit_mall now1 now2 stamp disk now_ins ok form w =
     (case w of (db, fs) \<Rightarrow>
      (case (case m_otp_code form of
               None \<Rightarrow> (Inr [], db)
             | Some c \<Rightarrow>
                 if c = [] then (Inr [], db)
                 else verify_otp now1 now2
                        \<lparr>v_phone = m_phone form, v_purpose = ''mall'', v_code = c\<rparr> db) of
         (Inl e, db') \<Rightarrow> (Inl e, db', fs)
       | (Inr _, db') \<Rightarrow>
           (case store_upload stamp disk (m_floorplan form) fs of
              (Inl e, fs') \<Rightarrow> (Inl e, db', fs')
            | (Inr file_meta, fs') \<Rightarrow>
                (case create_document now_ins ok ''mallinquiry'' (mall_data form file_meta) db' of
                   (Inl e, db'') \<Rightarrow> (Inl e, db'', fs')
                 | (Inr doc_id, db'') \<Rightarrow>
                     (Inr [(''success'', VBool True), (''id'', VId doc_id),
                           (''file'', file_meta)], db'', fs')))))"

section \<open>Vocabulary of the properties\<close>

text \<open>A document is a record of the phone and purpose when it holds both fields.\<close>

definition for_key :: "string \<Rightarrow> string \<Rightarrow> document \<Rightarrow> bool" where
  "for_key phone purpose d \<longleftrightarrow>
     map_of d ''phone'' = Some (VStr phone) \<and> map_of d ''purpose'' = Some (VStr purpose)"

text \<open>The documents of a collection behind the handle; none without a connection.\<close>

definition stored :: "string \<Rightarrow> store option \<Rightarrow> document list" where
  "stored coll db = (case db of None \<Rightarrow> [] | Some s \<Rightarrow> colls s coll)"

text \<open>The store after one more document in a collection.\<close>

definition inserted :: "string \<Rightarrow> document \<Rightarrow> store \<Rightarrow> store" where
  "inserted coll doc s =
     s\<lparr>colls := (colls s)(coll := colls s coll @ [doc]), next_id := Suc (next_id s)\<rparr>"

text \<open>The document that the store holds after \<^verbatim>\<open>start_otp\<close> wrote it.\<close>

definition otp_doc :: "nat \<Rightarrow> string \<Rightarrow> string \<Rightarrow> string \<Rightarrow> time \<Rightarrow> time \<Rightarrow> document" where
  "otp_doc i phone purpose code expires created =
     [(''phone'', VStr phone), (''purpose'', VStr purpose), (''code'', VStr code),
      (''verified'', VBool False), (''expires_at'', VTime expires),
      (''created_at'', VTime created), (''_id'', VId i)]"

text \<open>A ledger with two records of one phone and purpose, the older with another code.\<close>

definition demo_store :: store where
  "demo_store =
     \<lparr>colls = (\<lambda>_. [])(''otprequest'' :=
        [otp_doc 0 ''9999999999'' ''franchise'' ''111111'' 500 0,
         otp_doc 1 ''9999999999'' ''franchise'' ''123456'' 600 100]),
      next_id = 2\<rparr>"

definition demo_req :: "string \<Rightarrow> OTPVerifyRequest" where
  "demo_req c = \<lparr>v_phone = ''9999999999'', v_purpose = ''franchise'', v_code = c\<rparr>"

text \<open>A franchise payload that satisfies every declared constraint, with a given code.\<close>

definition demo_payload :: "string option \<Rightarrow> FranchisePayload" where
  "demo_payload c =
     \<lparr>f_full_name = ''Asha Rao'', f_email = ''asha@example.com'', f_phone = ''9999999999'',
      f_investment_capacity_lakhs = 50, f_preferred_cities = ''Pune, Mysuru'',
      f_city_tier = ''Tier 2'', f_message = None, f_otp_code = c\<rparr>"

text \<open>A payload of the right types whose phone, capacity and tier are out of range.\<close>

definition bad_payload :: FranchisePayload where
  "bad_payload =
     \<lparr>f_full_name = ''A'', f_email = ''a@example.com'', f_phone = ''1'',
      f_investment_capacity_lakhs = - 1, f_preferred_cities = ''X'',
      f_city_tier = ''Tier 3'', f_message = None, f_otp_code = None\<rparr>"

text \<open>A mall form with a given code and upload.\<close>

definition demo_form :: "string option \<Rightarrow> UploadFile option \<Rightarrow> MallForm" where
  "demo_form c up =
     \<lparr>m_contact_name = ''Ravi Nair'', m_email = ''ravi@example.com'', m_phone = ''8888888888'',
      m_mall_name = ''Orion'', m_location_city = ''Kochi'', m_available_space_sqft = 4000,
      m_message = None, m_otp_code = c, m_floorplan = up\<rparr>"

text \<open>The request that issues a code for the phone and purpose of the ledger above.\<close>

definition start_req :: OTPStartRequest where
  "start_req = \<lparr>s_phone = ''9999999999'', s_purpose = ''franchise''\<rparr>"

text \<open>The record of \<^verbatim>\<open>start_otp\<close> after a successful \<^verbatim>\<open>verify_otp\<close> has updated it.\<close>

definition verified_doc ::
  "nat \<Rightarrow> string \<Rightarrow> string \<Rightarrow> string \<Rightarrow> time \<Rightarrow> time \<Rightarrow> time \<Rightarrow> document" where
  "verified_doc i phone purpose code expires created updated =
     [(''phone'', VStr phone), (''purpose'', VStr purpose), (''code'', VStr code),
      (''verified'', VBool True), (''expires_at'', VTime expires),
      (''created_at'', VTime created), (''_id'', VId i), (''updated_at'', VTime updated)]"

text \<open>
  The invariant of the store on the ledger: every record bears an identifier that the
  store has already assigned, and no two records share one.
\<close>

definition id_below :: "nat \<Rightarrow> document \<Rightarrow> bool" where
  "id_below n d = (case map_of d ''_id'' of Some (VId i) \<Rightarrow> i < n | _ \<Rightarrow> False)"

definition otp_ids_ok :: "store \<Rightarrow> bool" where
  "otp_ids_ok s \<longleftrightarrow>
     distinct (map (\<lambda>d. map_of d ''_id'') (colls s ''otprequest'')) \<and>
     list_all (id_below (next_id s)) (colls s ''otprequest'')"

text \<open>A caller repeating one verification request, once per pair of clock readings.\<close>

fun verify_many ::
  "(time \<times> time) list \<Rightarrow> OTPVerifyRequest \<Rightarrow> store option \<Rightarrow> document result list \<times> store option" where
  "verify_many [] req db = ([], db)"
| "verify_many ((now1, now2) # ts) req db =
     (case verify_otp now1 now2 req db of
        (r, db') \<Rightarrow> (case verify_many ts req db' of (rs, db'') \<Rightarrow> (r # rs, db'')))"

text \<open>The update of \<^verbatim>\<open>verify_otp\<close> on one document, and on the document of an identifier.\<close>

definition mark :: "time \<Rightarrow> document \<Rightarrow> document" where
  "mark now2 = set_fields [(''verified'', VBool True), (''updated_at'', VTime now2)]"

definition mark_id :: "val \<Rightarrow> time \<Rightarrow> document \<Rightarrow> document" where
  "mark_id i u d = (if map_of d ''_id'' = Some i then mark u d else d)"

text \<open>An upload of eight bytes.\<close>

definition demo_upload :: UploadFile where
  "demo_upload = \<lparr>u_filename = ''plan.pdf'', u_content = ''%PDF-1.7''\<rparr>"

text \<open>A ledger with one record for the phone of the mall form.\<close>

definition demo_mall_store :: store where
  "demo_mall_store =
     \<lparr>colls = (\<lambda>_. [])(''otprequest'' := [otp_doc 0 ''8888888888'' ''mall'' ''123456'' 600 100]),
      next_id = 1\<rparr>"

section \<open>The newest record\<close>

lemma set_insort_desc: "set (insort_desc k d es) = insert d (set es)"
  by (induction es) auto

lemma set_sort_desc: "set (sort_desc k ds) = set ds"
  by (induction ds) (auto simp: sort_desc_def set_insort_desc)

lemma sort_desc_Cons: "sort_desc k (d # ds) = insort_desc k d (sort_desc k ds)"
  by (simp add: sort_desc_def)

lemma sort_desc_Nil: "sort_desc k [] = []"
  by (simp add: sort_desc_def)

lemma sort_desc_eq_Nil: "sort_desc k ds = [] \<longleftrightarrow> ds = []"
  using set_sort_desc [of k ds] by (metis set_empty)

text \<open>The head of the sorted list carries a greatest key.\<close>

lemma insort_desc_hd:
  "(\<forall>e \<in> set es. field_time k e \<le> field_time k (hd es)) \<Longrightarrow> r # rest = insort_desc k d es \<Longrightarrow>
   (\<forall>e \<in> insert d (set es). field_time k e \<le> field_time k r)"
  by (cases es) (auto split: if_splits)

lemma sort_desc_hd_greatest:
  "sort_desc k ds = r # rest \<Longrightarrow> e \<in> set ds \<Longrightarrow> field_time k e \<le> field_time k r"
proof (induction ds arbitrary: r rest e)
  case Nil
  then show ?case by simp
next
  case (Cons d ds)
  show ?case
  proof (cases "sort_desc k ds")
    case Nil
    with Cons.prems show ?thesis by (simp add: sort_desc_Cons sort_desc_eq_Nil)
  next
    case (Cons r' rest')
    have ih: "\<forall>x \<in> set ds. field_time k x \<le> field_time k r'"
      using Cons.IH [OF Cons] by blast
    from Cons.prems(1) Cons have "r = d \<and> field_time k r' \<le> field_time k d \<or> r = r' \<and> \<not> field_time k r' \<le> field_time k d"
      by (auto simp: sort_desc_Cons split: if_splits)
    with ih Cons.prems(2) show ?thesis by auto
  qed
qed

lemma limit1_sort_desc:
  "limit (Suc 0) xs = (case xs of [] \<Rightarrow> [] | r # _ \<Rightarrow> [r])"
  by (simp add: limit_def split: list.splits)

lemma matches_for_key:
  "matches [(''phone'', VStr p), (''purpose'', VStr q)] d = for_key p q d"
  by (simp add: matches_def for_key_def)

lemma sort_desc_hd_mem: "sort_desc k ds = r # rest \<Longrightarrow> r \<in> set ds"
  by (metis set_sort_desc list.set_intros(1))

lemma otp_recs_Some:
  "otp_recs (Some s) p q =
     (case sort_desc ''created_at'' (filter (for_key p q) (colls s ''otprequest'')) of
        [] \<Rightarrow> [] | r # _ \<Rightarrow> [r])"
proof -
  have "matches [(''phone'', VStr p), (''purpose'', VStr q)] = for_key p q"
    by (rule ext) (rule matches_for_key)
  then show ?thesis
    by (simp add: otp_recs_def find_docs_def limit1_sort_desc)
qed

lemma otp_recs_Nil:
  "otp_recs db p q = [] \<longleftrightarrow> (\<forall>s. db = Some s \<longrightarrow> (\<forall>d \<in> set (colls s ''otprequest''). \<not> for_key p q d))"
proof (cases db)
  case None
  then show ?thesis by (simp add: otp_recs_def)
next
  case (Some s)
  have "otp_recs (Some s) p q = [] \<longleftrightarrow> filter (for_key p q) (colls s ''otprequest'') = []"
    by (auto simp: otp_recs_Some sort_desc_eq_Nil sort_desc_Nil split: list.splits)
  with Some show ?thesis by (simp add: filter_empty_conv)
qed

lemma otp_recs_Cons:
  assumes "otp_recs db p q = rec # rest"
  shows "rest = [] \<and> (\<exists>s. db = Some s \<and> rec \<in> set (colls s ''otprequest'') \<and> for_key p q rec \<and>
           (\<forall>d \<in> set (colls s ''otprequest''). for_key p q d \<longrightarrow> field_time ''created_at'' d \<le> field_time ''created_at'' rec))"
proof (cases db)
  case None
  with assms show ?thesis by (simp add: otp_recs_def)
next
  case (Some s)
  let ?ms = "filter (for_key p q) (colls s ''otprequest'')"
  from assms Some obtain tl where srt: "sort_desc ''created_at'' ?ms = rec # tl" and r: "rest = []"
    by (auto simp: otp_recs_Some split: list.splits)
  have "rec \<in> set ?ms" using sort_desc_hd_mem [OF srt] .
  moreover have "\<forall>d \<in> set ?ms. field_time ''created_at'' d \<le> field_time ''created_at'' rec"
    using sort_desc_hd_greatest [OF srt] by blast
  ultimately show ?thesis using Some r by auto
qed

lemma demo_recs:
  "otp_recs (Some demo_store) ''9999999999'' ''franchise'' =
     [otp_doc 1 ''9999999999'' ''franchise'' ''123456'' 600 100]"
  by (simp add: otp_recs_def limit_def sort_desc_def find_docs_def matches_def field_time_def demo_store_def otp_doc_def)

section \<open>Failures of the verification\<close>

text \<open>
  C1. \<^verbatim>\<open>verify_otp\<close> answers \<^verbatim>\<open>OTP not found\<close> when there is no connection or no record
  of the phone and purpose. Otherwise it examines one record of that phone and purpose
  whose creation time no other such record exceeds; a code that differs from the
  record's code gives \<^verbatim>\<open>Invalid OTP\<close> whatever the expiry, and an equal code with a
  clock reading strictly after \<^verbatim>\<open>expires_at\<close> gives \<^verbatim>\<open>OTP expired\<close>.
\<close>

theorem verify_otp_failures:
  "((\<forall>s. db = Some s \<longrightarrow>
        (\<forall>d \<in> set (colls s ''otprequest''). \<not> for_key (v_phone req) (v_purpose req) d)) \<longrightarrow>
      verify_otp now1 now2 req db = (Inl (HTTPException 400 ''OTP not found''), db)) \<and>
   (\<forall>s. db = Some s \<and> (\<exists>d \<in> set (colls s ''otprequest''). for_key (v_phone req) (v_purpose req) d) \<longrightarrow>
      (\<exists>rec. otp_recs db (v_phone req) (v_purpose req) = [rec] \<and>
         rec \<in> set (colls s ''otprequest'') \<and> for_key (v_phone req) (v_purpose req) rec \<and>
         (\<forall>d \<in> set (colls s ''otprequest''). for_key (v_phone req) (v_purpose req) d \<longrightarrow>
            field_time ''created_at'' d \<le> field_time ''created_at'' rec) \<and>
         (map_of rec ''code'' \<noteq> Some (VStr (v_code req)) \<longrightarrow>
            verify_otp now1 now2 req db = (Inl (HTTPException 400 ''Invalid OTP''), db)) \<and>
         (map_of rec ''code'' = Some (VStr (v_code req)) \<longrightarrow>
            (\<forall>e. map_of rec ''expires_at'' = Some (VTime e) \<and> e < now1 \<longrightarrow>
               verify_otp now1 now2 req db = (Inl (HTTPException 400 ''OTP expired''), db)))))"
proof (intro conjI impI allI)
  assume "\<forall>s. db = Some s \<longrightarrow>
        (\<forall>d \<in> set (colls s ''otprequest''). \<not> for_key (v_phone req) (v_purpose req) d)"
  then have "otp_recs db (v_phone req) (v_purpose req) = []"
    by (simp add: otp_recs_Nil)
  then show "verify_otp now1 now2 req db = (Inl (HTTPException 400 ''OTP not found''), db)"
    by (simp add: verify_otp_def)
next
  fix s
  assume a: "db = Some s \<and> (\<exists>d \<in> set (colls s ''otprequest''). for_key (v_phone req) (v_purpose req) d)"
  then have "otp_recs db (v_phone req) (v_purpose req) \<noteq> []"
    by (auto simp: otp_recs_Nil)
  then obtain rec rest where rc: "otp_recs db (v_phone req) (v_purpose req) = rec # rest"
    by (cases "otp_recs db (v_phone req) (v_purpose req)") auto
  from otp_recs_Cons [OF rc] a have props: "rest = []" "rec \<in> set (colls s ''otprequest'')"
    "for_key (v_phone req) (v_purpose req) rec"
    "\<forall>d \<in> set (colls s ''otprequest''). for_key (v_phone req) (v_purpose req) d \<longrightarrow>
        field_time ''created_at'' d \<le> field_time ''created_at'' rec"
    by auto
  have inv: "map_of rec ''code'' \<noteq> Some (VStr (v_code req)) \<longrightarrow>
      verify_otp now1 now2 req db = (Inl (HTTPException 400 ''Invalid OTP''), db)"
    using rc by (simp add: verify_otp_def)
  have exp: "map_of rec ''code'' = Some (VStr (v_code req)) \<longrightarrow>
      (\<forall>e. map_of rec ''expires_at'' = Some (VTime e) \<and> e < now1 \<longrightarrow>
         verify_otp now1 now2 req db = (Inl (HTTPException 400 ''OTP expired''), db))"
    using rc by (simp add: verify_otp_def expired_def)
  show "\<exists>rec. otp_recs db (v_phone req) (v_purpose req) = [rec] \<and>
         rec \<in> set (colls s ''otprequest'') \<and> for_key (v_phone req) (v_purpose req) rec \<and>
         (\<forall>d \<in> set (colls s ''otprequest''). for_key (v_phone req) (v_purpose req) d \<longrightarrow>
            field_time ''created_at'' d \<le> field_time ''created_at'' rec) \<and>
         (map_of rec ''code'' \<noteq> Some (VStr (v_code req)) \<longrightarrow>
            verify_otp now1 now2 req db = (Inl (HTTPException 400 ''Invalid OTP''), db)) \<and>
         (map_of rec ''code'' = Some (VStr (v_code req)) \<longrightarrow>
            (\<forall>e. map_of rec ''expires_at'' = Some (VTime e) \<and> e < now1 \<longrightarrow>
               verify_otp now1 now2 req db = (Inl (HTTPException 400 ''OTP expired''), db)))"
    using rc props inv exp by blast
qed

theorem verify_otp_failures_witness:
  "verify_otp 1000 1001 (demo_req ''123456'') None = (Inl (HTTPException 400 ''OTP not found''), None) \<and>
   verify_otp 1000 1001 (demo_req ''111111'') (Some demo_store) =
     (Inl (HTTPException 400 ''Invalid OTP''), Some demo_store) \<and>
   verify_otp 1000 1001 (demo_req ''123456'') (Some demo_store) =
     (Inl (HTTPException 400 ''OTP expired''), Some demo_store)"
proof -
  let ?new = "otp_doc 1 ''9999999999'' ''franchise'' ''123456'' 600 100"
  have ex: "\<exists>d \<in> set (colls demo_store ''otprequest''). for_key ''9999999999'' ''franchise'' d"
    by (simp add: demo_store_def otp_doc_def for_key_def)
  have none: "verify_otp 1000 1001 (demo_req ''123456'') None =
      (Inl (HTTPException 400 ''OTP not found''), None)"
    using verify_otp_failures [of None "demo_req ''123456''" 1000 1001] by simp
  have "map_of ?new ''code'' \<noteq> Some (VStr ''111111'')"
    by (simp add: otp_doc_def)
  with verify_otp_failures [of "Some demo_store" "demo_req ''111111''" 1000 1001] ex demo_recs
  have wrong: "verify_otp 1000 1001 (demo_req ''111111'') (Some demo_store) =
      (Inl (HTTPException 400 ''Invalid OTP''), Some demo_store)"
    by (auto simp: demo_req_def)
  have "map_of ?new ''code'' = Some (VStr ''123456'') \<and> map_of ?new ''expires_at'' = Some (VTime 600)"
    by (simp add: otp_doc_def)
  with verify_otp_failures [of "Some demo_store" "demo_req ''123456''" 1000 1001] ex demo_recs
  have late: "verify_otp 1000 1001 (demo_req ''123456'') (Some demo_store) =
      (Inl (HTTPException 400 ''OTP expired''), Some demo_store)"
    by (auto simp: demo_req_def)
  from none wrong late show ?thesis by blast
qed

text \<open>
  C6. A call of \<^verbatim>\<open>verify_otp\<close> that raises leaves the store as it was: no record is
  changed, in particular neither \<^verbatim>\<open>verified\<close> nor \<^verbatim>\<open>updated_at\<close> of the record
  examined.
\<close>

theorem verify_otp_failure_no_mutation:
  "verify_otp now1 now2 req db = (Inl e, db') \<Longrightarrow> db' = db"
  by (auto simp: verify_otp_def split: list.splits if_splits sum.splits bool.splits option.splits)

theorem verify_otp_failure_no_mutation_witness:
  "snd (verify_otp 1000 1001 (demo_req ''111111'') (Some demo_store)) = Some demo_store"
  using verify_otp_failure_no_mutation [of 1000 1001 "demo_req ''111111''" "Some demo_store"
      "HTTPException 400 ''Invalid OTP''" "snd (verify_otp 1000 1001 (demo_req ''111111'') (Some demo_store))"]
  by (simp add: verify_otp_def demo_req_def demo_recs otp_doc_def)


section \<open>The gate of the submission handlers\<close>

lemma create_document_Some:
  "create_document now True coll data (Some s) =
     (Inr (next_id s),
      Some (inserted coll (AList.update ''_id'' (VId (next_id s)) (AList.update ''created_at'' (VTime now) data)) s))"
  by (simp add: create_document_def inserted_def)


text \<open>
  C2. When a franchise payload carries a code that is not empty and the verification of
  that code raises, \<^verbatim>\<open>submit_franchise\<close> raises the same exception (status 400 for the
  three verification errors) and leaves the store as it was, so that no
  \<^verbatim>\<open>franchiseinquiry\<close> document is created.
\<close>

theorem submit_franchise_verify_failure:
  "f_otp_code p = Some c \<Longrightarrow> c \<noteq> [] \<Longrightarrow>
   verify_otp now1 now2 \<lparr>v_phone = f_phone p, v_purpose = ''franchise'', v_code = c\<rparr> db = (Inl e, db') \<Longrightarrow>
   submit_franchise now1 now2 now_ins ok p db = (Inl e, db) \<and>
   stored ''franchiseinquiry'' (snd (submit_franchise now1 now2 now_ins ok p db)) = stored ''franchiseinquiry'' db"
proof -
  assume c: "f_otp_code p = Some c" "c \<noteq> []"
    and v: "verify_otp now1 now2 \<lparr>v_phone = f_phone p, v_purpose = ''franchise'', v_code = c\<rparr> db = (Inl e, db')"
  have "db' = db"
    using v by (auto simp: verify_otp_def split: list.splits if_splits sum.splits bool.splits option.splits)
  with c v have "submit_franchise now1 now2 now_ins ok p db = (Inl e, db)"
    by (simp add: submit_franchise_def)
  then show ?thesis by simp
qed

lemma demo_verify_wrong:
  "verify_otp 200 201 (demo_req ''000000'') (Some demo_store) =
     (Inl (HTTPException 400 ''Invalid OTP''), Some demo_store)"
  by (simp add: verify_otp_def demo_req_def demo_recs otp_doc_def)

theorem submit_franchise_verify_failure_witness:
  "submit_franchise 200 201 202 True (demo_payload (Some ''000000'')) (Some demo_store) =
     (Inl (HTTPException 400 ''Invalid OTP''), Some demo_store) \<and>
   stored ''franchiseinquiry''
     (snd (submit_franchise 200 201 202 True (demo_payload (Some ''000000'')) (Some demo_store))) = []"
  using submit_franchise_verify_failure [of "demo_payload (Some ''000000'')" "''000000''" 200 201
      "Some demo_store" "HTTPException 400 ''Invalid OTP''" "Some demo_store" 202 True]
    demo_verify_wrong
  by (simp add: demo_payload_def demo_req_def stored_def demo_store_def)

text \<open>
  C3. The handler takes a \<^verbatim>\<open>FranchisePayload\<close>, which declares types only, while the
  constraints on the phone length, the capacity and the tier stand in the
  \<^verbatim>\<open>FranchiseInquiry\<close> of \<^verbatim>\<open>schemas.py\<close>, which the handler never uses. A payload with a
  negative capacity, the tier \<^verbatim>\<open>Tier 3\<close> and a one-digit phone is accepted and stored.
\<close>

theorem submit_franchise_accepts_out_of_range:
  "\<not> FranchiseInquiry_valid bad_payload \<and>
   fst (submit_franchise 0 0 7 True bad_payload (Some empty_store)) =
     Inr [(''success'', VBool True), (''id'', VId 0)] \<and>
   stored ''franchiseinquiry'' (snd (submit_franchise 0 0 7 True bad_payload (Some empty_store))) =
     [[(''full_name'', VStr ''A''), (''email'', VStr ''a@example.com''), (''phone'', VStr ''1''),
       (''investment_capacity_lakhs'', VFloat (- 1)), (''preferred_cities'', VStr ''X''),
       (''city_tier'', VStr ''Tier 3''), (''message'', VNone), (''otp_code'', VNone),
       (''created_at'', VTime 7), (''_id'', VId 0)]]"
  by (simp add: FranchiseInquiry_valid_def bad_payload_def submit_franchise_def create_document_def
      model_dump_def opt_str_def empty_store_def stored_def)

text \<open>
  C7. A franchise payload without a code is stored without any verification: on a
  connected store whose write goes through, whatever the ledger holds and whatever the
  clock readings of the verification, the response carries the identifier the store
  assigned, and the store differs from the one before by exactly one
  \<^verbatim>\<open>franchiseinquiry\<close> document, which holds every field of the payload as submitted,
  the creation time and the identifier. The mall submission without a code does the
  same with the fields of its form and the metadata of its file part, if any.
\<close>

theorem submit_without_otp_code:
  "(f_otp_code p = None \<longrightarrow>
      submit_franchise now1 now2 now_ins True p (Some s) =
        (Inr [(''success'', VBool True), (''id'', VId (next_id s))],
         Some (s\<lparr>colls := (colls s)(''franchiseinquiry'' := colls s ''franchiseinquiry'' @
                  [[(''full_name'', VStr (f_full_name p)),
                    (''email'', VStr (f_email p)),
                    (''phone'', VStr (f_phone p)),
                    (''investment_capacity_lakhs'', VFloat (f_investment_capacity_lakhs p)),
                    (''preferred_cities'', VStr (f_preferred_cities p)),
                    (''city_tier'', VStr (f_city_tier p)),
                    (''message'', (case f_message p of None \<Rightarrow> VNone | Some m \<Rightarrow> VStr m)),
                    (''otp_code'', VNone),
                    (''created_at'', VTime now_ins),
                    (''_id'', VId (next_id s))]]),
                 next_id := Suc (next_id s)\<rparr>))) \<and>
   (m_otp_code f = None \<and> m_floorplan f = None \<longrightarrow>
      submit_mall now1 now2 stamp disk now_ins True f (Some s, fs) =
        (Inr [(''success'', VBool True), (''id'', VId (next_id s)), (''file'', VNone)],
         Some (s\<lparr>colls := (colls s)(''mallinquiry'' := colls s ''mallinquiry'' @
                  [[(''contact_name'', VStr (m_contact_name f)),
                    (''email'', VStr (m_email f)),
                    (''phone'', VStr (m_phone f)),
                    (''mall_name'', VStr (m_mall_name f)),
                    (''location_city'', VStr (m_location_city f)),
                    (''available_space_sqft'', VInt (m_available_space_sqft f)),
                    (''message'', (case m_message f of None \<Rightarrow> VNone | Some m \<Rightarrow> VStr m)),
                    (''floorplan'', VNone),
                    (''created_at'', VTime now_ins),
                    (''_id'', VId (next_id s))]]),
                 next_id := Suc (next_id s)\<rparr>),
         fs)) \<and>
   (m_otp_code f = None \<and> m_floorplan f = Some up \<longrightarrow>
      submit_mall now1 now2 stamp DiskOk now_ins True f (Some s, fs) =
        (Inr [(''success'', VBool True), (''id'', VId (next_id s)),
              (''file'', VDoc [(''filename'', VStr (stamp @ ''_'' @ u_filename up)),
                               (''path'', VStr (''/uploads/'' @ stamp @ ''_'' @ u_filename up)),
                               (''size'', VInt (int (length (u_content up))))])],
         Some (s\<lparr>colls := (colls s)(''mallinquiry'' := colls s ''mallinquiry'' @
                  [[(''contact_name'', VStr (m_contact_name f)),
                    (''email'', VStr (m_email f)),
                    (''phone'', VStr (m_phone f)),
                    (''mall_name'', VStr (m_mall_name f)),
                    (''location_city'', VStr (m_location_city f)),
                    (''available_space_sqft'', VInt (m_available_space_sqft f)),
                    (''message'', (case m_message f of None \<Rightarrow> VNone | Some m \<Rightarrow> VStr m)),
                    (''floorplan'',
                     VDoc [(''filename'', VStr (stamp @ ''_'' @ u_filename up)),
                           (''path'', VStr (''/uploads/'' @ stamp @ ''_'' @ u_filename up)),
                           (''size'', VInt (int (length (u_content up))))]),
                    (''created_at'', VTime now_ins),
                    (''_id'', VId (next_id s))]]),
                 next_id := Suc (next_id s)\<rparr>),
         fs(''public/uploads/'' @ stamp @ ''_'' @ u_filename up \<mapsto> u_content up)))"
proof (intro conjI impI)
  assume "f_otp_code p = None"
  then show "submit_franchise now1 now2 now_ins True p (Some s) =
        (Inr [(''success'', VBool True), (''id'', VId (next_id s))],
         Some (s\<lparr>colls := (colls s)(''franchiseinquiry'' := colls s ''franchiseinquiry'' @
                  [[(''full_name'', VStr (f_full_name p)),
                    (''email'', VStr (f_email p)),
                    (''phone'', VStr (f_phone p)),
                    (''investment_capacity_lakhs'', VFloat (f_investment_capacity_lakhs p)),
                    (''preferred_cities'', VStr (f_preferred_cities p)),
                    (''city_tier'', VStr (f_city_tier p)),
                    (''message'', (case f_message p of None \<Rightarrow> VNone | Some m \<Rightarrow> VStr m)),
                    (''otp_code'', VNone),
                    (''created_at'', VTime now_ins),
                    (''_id'', VId (next_id s))]]),
                 next_id := Suc (next_id s)\<rparr>))"
    by (simp add: submit_franchise_def create_document_def model_dump_def opt_str_def)
next
  assume "m_otp_code f = None \<and> m_floorplan f = None"
  then show "submit_mall now1 now2 stamp disk now_ins True f (Some s, fs) =
        (Inr [(''success'', VBool True), (''id'', VId (next_id s)), (''file'', VNone)],
         Some (s\<lparr>colls := (colls s)(''mallinquiry'' := colls s ''mallinquiry'' @
                  [[(''contact_name'', VStr (m_contact_name f)),
                    (''email'', VStr (m_email f)),
                    (''phone'', VStr (m_phone f)),
                    (''mall_name'', VStr (m_mall_name f)),
                    (''location_city'', VStr (m_location_city f)),
                    (''available_space_sqft'', VInt (m_available_space_sqft f)),
                    (''message'', (case m_message f of None \<Rightarrow> VNone | Some m \<Rightarrow> VStr m)),
                    (''floorplan'', VNone),
                    (''created_at'', VTime now_ins),
                    (''_id'', VId (next_id s))]]),
                 next_id := Suc (next_id s)\<rparr>),
         fs)"
    by (simp add: submit_mall_def store_upload_def create_document_def mall_data_def opt_str_def)
next
  assume "m_otp_code f = None \<and> m_floorplan f = Some up"
  then show "submit_mall now1 now2 stamp DiskOk now_ins True f (Some s, fs) =
        (Inr [(''success'', VBool True), (''id'', VId (next_id s)),
              (''file'', VDoc [(''filename'', VStr (stamp @ ''_'' @ u_filename up)),
                               (''path'', VStr (''/uploads/'' @ stamp @ ''_'' @ u_filename up)),
                               (''size'', VInt (int (length (u_content up))))])],
         Some (s\<lparr>colls := (colls s)(''mallinquiry'' := colls s ''mallinquiry'' @
                  [[(''contact_name'', VStr (m_contact_name f)),
                    (''email'', VStr (m_email f)),
                    (''phone'', VStr (m_phone f)),
                    (''mall_name'', VStr (m_mall_name f)),
                    (''location_city'', VStr (m_location_city f)),
                    (''available_space_sqft'', VInt (m_available_space_sqft f)),
                    (''message'', (case m_message f of None \<Rightarrow> VNone | Some m \<Rightarrow> VStr m)),
                    (''floorplan'',
                     VDoc [(''filename'', VStr (stamp @ ''_'' @ u_filename up)),
                           (''path'', VStr (''/uploads/'' @ stamp @ ''_'' @ u_filename up)),
                           (''size'', VInt (int (length (u_content up))))]),
                    (''created_at'', VTime now_ins),
                    (''_id'', VId (next_id s))]]),
                 next_id := Suc (next_id s)\<rparr>),
         fs(''public/uploads/'' @ stamp @ ''_'' @ u_filename up \<mapsto> u_content up))"
    by (simp add: submit_mall_def store_upload_def create_document_def mall_data_def opt_str_def
        Let_def)
qed

theorem submit_without_otp_code_witness:
  "fst (submit_franchise 200 201 202 True (demo_payload None) (Some demo_store)) =
     Inr [(''success'', VBool True), (''id'', VId 2)] \<and>
   stored ''franchiseinquiry''
     (snd (submit_franchise 200 201 202 True (demo_payload None) (Some demo_store))) =
     [[(''full_name'', VStr ''Asha Rao''), (''email'', VStr ''asha@example.com''),
       (''phone'', VStr ''9999999999''), (''investment_capacity_lakhs'', VFloat 50),
       (''preferred_cities'', VStr ''Pune, Mysuru''), (''city_tier'', VStr ''Tier 2''),
       (''message'', VNone), (''otp_code'', VNone),
       (''created_at'', VTime 202), (''_id'', VId 2)]] \<and>
   stored ''otprequest''
     (snd (submit_franchise 200 201 202 True (demo_payload None) (Some demo_store))) =
     stored ''otprequest'' (Some demo_store) \<and>
   fst (submit_mall 200 201 ''20261104120000'' DiskOk 202 True (demo_form None None)
          (Some demo_store, Map.empty)) =
     Inr [(''success'', VBool True), (''id'', VId 2), (''file'', VNone)] \<and>
   stored ''mallinquiry''
     (fst (snd (submit_mall 200 201 ''20261104120000'' DiskOk 202 True (demo_form None None)
                  (Some demo_store, Map.empty)))) =
     [[(''contact_name'', VStr ''Ravi Nair''), (''email'', VStr ''ravi@example.com''),
       (''phone'', VStr ''8888888888''), (''mall_name'', VStr ''Orion''),
       (''location_city'', VStr ''Kochi''), (''available_space_sqft'', VInt 4000),
       (''message'', VNone), (''floorplan'', VNone),
       (''created_at'', VTime 202), (''_id'', VId 2)]]"
proof -
  have ids: "next_id demo_store = 2" "colls demo_store ''franchiseinquiry'' = []"
    "colls demo_store ''mallinquiry'' = []"
    by (simp_all add: demo_store_def)
  have a: "f_otp_code (demo_payload None) = None"
    by (simp add: demo_payload_def)
  have b: "m_otp_code (demo_form None None) = None \<and> m_floorplan (demo_form None None) = None"
    by (simp add: demo_form_def)
  from submit_without_otp_code [of "demo_payload None" 200 201 202 demo_store
      "demo_form None None" "''20261104120000''" DiskOk Map.empty] a b
  have fr: "submit_franchise 200 201 202 True (demo_payload None) (Some demo_store) =
        (Inr [(''success'', VBool True), (''id'', VId 2)],
         Some (demo_store\<lparr>colls := (colls demo_store)(''franchiseinquiry'' :=
                  [[(''full_name'', VStr ''Asha Rao''), (''email'', VStr ''asha@example.com''),
                    (''phone'', VStr ''9999999999''), (''investment_capacity_lakhs'', VFloat 50),
                    (''preferred_cities'', VStr ''Pune, Mysuru''), (''city_tier'', VStr ''Tier 2''),
                    (''message'', VNone), (''otp_code'', VNone),
                    (''created_at'', VTime 202), (''_id'', VId 2)]]),
                 next_id := 3\<rparr>))"
    and ml: "submit_mall 200 201 ''20261104120000'' DiskOk 202 True (demo_form None None)
          (Some demo_store, Map.empty) =
        (Inr [(''success'', VBool True), (''id'', VId 2), (''file'', VNone)],
         Some (demo_store\<lparr>colls := (colls demo_store)(''mallinquiry'' :=
                  [[(''contact_name'', VStr ''Ravi Nair''), (''email'', VStr ''ravi@example.com''),
                    (''phone'', VStr ''8888888888''), (''mall_name'', VStr ''Orion''),
                    (''location_city'', VStr ''Kochi''), (''available_space_sqft'', VInt 4000),
                    (''message'', VNone), (''floorplan'', VNone),
                    (''created_at'', VTime 202), (''_id'', VId 2)]]),
                 next_id := 3\<rparr>),
         Map.empty)"
    by (simp_all add: ids demo_payload_def demo_form_def)
  show ?thesis
    unfolding fr ml by (simp add: stored_def)
qed




section \<open>Issuing a code and verifying it\<close>

lemma sort_desc_snoc_newest:
  "\<forall>e \<in> set ds. field_time k e < field_time k d \<Longrightarrow>
   sort_desc k (ds @ [d]) = d # sort_desc k ds"
proof (induction ds)
  case Nil
  then show ?case by (simp add: sort_desc_def)
next
  case (Cons e ds)
  then have "sort_desc k (ds @ [d]) = d # sort_desc k ds" and "\<not> field_time k d \<le> field_time k e"
    by auto
  then show ?case by (simp add: sort_desc_Cons)
qed

lemma colls_inserted:
  "colls (inserted c d s) c' = (if c' = c then colls s c @ [d] else colls s c')"
  by (simp add: inserted_def)

lemma otp_recs_inserted:
  assumes "for_key p q d"
    and "\<forall>e \<in> set (colls s ''otprequest''). for_key p q e \<longrightarrow>
           field_time ''created_at'' e < field_time ''created_at'' d"
  shows "otp_recs (Some (inserted ''otprequest'' d s)) p q = [d]"
proof -
  let ?ms = "filter (for_key p q) (colls s ''otprequest'')"
  have "sort_desc ''created_at'' (?ms @ [d]) = d # sort_desc ''created_at'' ?ms"
    using assms(2) by (intro sort_desc_snoc_newest) simp
  then show ?thesis using assms(1)
    by (simp add: otp_recs_Some colls_inserted)
qed

lemma start_otp_Some:
  "OTPStartRequest_valid req \<Longrightarrow>
   start_otp now now_ins True req (Some s) =
     (Inr [(''success'', VBool True), (''message'', VStr ''OTP sent''), (''demo_code'', VStr ''123456'')],
      Some (inserted ''otprequest''
              (otp_doc (next_id s) (s_phone req) (s_purpose req) ''123456'' (now + ten_minutes) now_ins) s))"
  by (simp add: start_otp_def create_document_Some otp_doc_def Let_def)

lemma otp_doc_fields:
  "for_key p q (otp_doc i p q c e t)"
  "field_time ''created_at'' (otp_doc i p q c e t) = Some t"
  "map_of (otp_doc i p q c e t) ''code'' = Some (VStr c)"
  "map_of (otp_doc i p q c e t) ''_id'' = Some (VId i)"
  "expired now (otp_doc i p q c e t) = Inr (e < now)"
  by (simp_all add: otp_doc_def for_key_def field_time_def expired_def)

lemma verify_otp_on_issued:
  assumes "otp_recs db (v_phone r) (v_purpose r) = [otp_doc i p q c e t]"
  shows "fst (verify_otp now1 now2 r db) =
           (if v_code r \<noteq> c then Inl (HTTPException 400 ''Invalid OTP'')
            else if e < now1 then Inl (HTTPException 400 ''OTP expired'')
            else Inr [(''success'', VBool True)])"
  using assms by (simp add: verify_otp_def otp_doc_fields)

lemma update_first_append:
  "\<forall>d \<in> set ds. \<not> P d \<Longrightarrow> update_first P f (ds @ es) = ds @ update_first P f es"
  by (induction ds) auto

lemma matches_id: "matches [(''_id'', i)] d \<longleftrightarrow> map_of d ''_id'' = Some i"
  by (simp add: matches_def)

lemma set_fields_otp_doc:
  "set_fields [(''verified'', VBool True), (''updated_at'', VTime u)] (otp_doc i p q c e t) =
     verified_doc i p q c e t u"
  by (simp add: set_fields_def otp_doc_def verified_doc_def)

text \<open>
  C5. A valid \<^verbatim>\<open>start_otp\<close> call on a connected store whose write goes through, creating
  a record later than every record of the phone and purpose already there, returns a
  \<^verbatim>\<open>demo_code\<close> such that a following \<^verbatim>\<open>verify_otp\<close> for the same phone and purpose,
  whose clock reading is at most ten minutes after the one of \<^verbatim>\<open>start_otp\<close>, succeeds
  exactly when it supplies that code.
\<close>

theorem demo_code_is_required_code:
  assumes "OTPStartRequest_valid req"
    and "\<forall>d \<in> set (colls s ''otprequest''). for_key (s_phone req) (s_purpose req) d \<longrightarrow>
           field_time ''created_at'' d < Some now_ins"
    and "now1 \<le> now + ten_minutes"
  shows "\<exists>dc db'. start_otp now now_ins True req (Some s) =
           (Inr [(''success'', VBool True), (''message'', VStr ''OTP sent''), (''demo_code'', VStr dc)], db') \<and>
         (\<forall>c now2. fst (verify_otp now1 now2
                      \<lparr>v_phone = s_phone req, v_purpose = s_purpose req, v_code = c\<rparr> db') =
                      Inr [(''success'', VBool True)] \<longleftrightarrow> c = dc)"
proof -
  let ?d = "otp_doc (next_id s) (s_phone req) (s_purpose req) ''123456'' (now + ten_minutes) now_ins"
  let ?db = "Some (inserted ''otprequest'' ?d s)"
  have recs: "otp_recs ?db (s_phone req) (s_purpose req) = [?d]"
    using assms(2) by (intro otp_recs_inserted) (simp_all add: otp_doc_fields)
  have "fst (verify_otp now1 now2
               \<lparr>v_phone = s_phone req, v_purpose = s_purpose req, v_code = c\<rparr> ?db) =
          Inr [(''success'', VBool True)] \<longleftrightarrow> c = ''123456''" for c now2
    using assms(3) recs
    by (subst verify_otp_on_issued [where i = "next_id s" and p = "s_phone req" and q = "s_purpose req"
          and c = "''123456''" and e = "now + ten_minutes" and t = now_ins]) auto
  with start_otp_Some [OF assms(1), of now now_ins s] show ?thesis by blast
qed

theorem demo_code_is_required_code_witness:
  "fst (start_otp 1000 1001 True start_req (Some demo_store)) =
     Inr [(''success'', VBool True), (''message'', VStr ''OTP sent''), (''demo_code'', VStr ''123456'')] \<and>
   fst (verify_otp (1000 + ten_minutes) 2000 (demo_req ''123456'')
          (snd (start_otp 1000 1001 True start_req (Some demo_store)))) =
     Inr [(''success'', VBool True)]"
proof -
  have valid: "OTPStartRequest_valid start_req"
    by (simp add: start_req_def OTPStartRequest_valid_def)
  have older: "\<forall>d \<in> set (colls demo_store ''otprequest'').
      for_key (s_phone start_req) (s_purpose start_req) d \<longrightarrow>
      field_time ''created_at'' d < Some 1001"
    by (simp add: demo_store_def otp_doc_def field_time_def)
  from demo_code_is_required_code [OF valid older, of "1000 + ten_minutes" 1000]
  obtain dc db' where
    st: "start_otp 1000 1001 True start_req (Some demo_store) =
           (Inr [(''success'', VBool True), (''message'', VStr ''OTP sent''),
                 (''demo_code'', VStr dc)], db')"
    and vf: "\<And>c now2. fst (verify_otp (1000 + ten_minutes) now2
              \<lparr>v_phone = s_phone start_req, v_purpose = s_purpose start_req, v_code = c\<rparr> db') =
              Inr [(''success'', VBool True)] \<longleftrightarrow> c = dc"
    by auto
  from st start_otp_Some [OF valid, of 1000 1001 demo_store] have dc: "dc = ''123456''"
    by simp
  from vf [of 2000 dc] st dc show ?thesis
    by (simp add: demo_req_def start_req_def)
qed

text \<open>
  C4, as the claim states it, fails: every \<^verbatim>\<open>start_otp\<close> issues the same stub code, so
  after two calls the code of the first call is also the code of the newest record, and
  \<^verbatim>\<open>verify_otp\<close> accepts it.
\<close>

theorem first_code_accepted_after_second_start:
  "fst (start_otp 0 1 True start_req (Some empty_store)) =
     Inr [(''success'', VBool True), (''message'', VStr ''OTP sent''), (''demo_code'', VStr ''123456'')] \<and>
   fst (verify_otp 20 21 (demo_req ''123456'')
          (snd (start_otp 10 11 True start_req
             (snd (start_otp 0 1 True start_req (Some empty_store)))))) =
     Inr [(''success'', VBool True)]"
  by (simp add: start_otp_def create_document_def verify_otp_def otp_recs_def limit_def
      sort_desc_def find_docs_def matches_def field_time_def expired_def start_req_def demo_req_def
      OTPStartRequest_valid_def empty_store_def ten_minutes_def Let_def)

text \<open>
  C4, amended. After two \<^verbatim>\<open>start_otp\<close> calls for one phone and purpose, the second
  creating its record strictly later, both calls have returned the code \<^verbatim>\<open>123456\<close> and
  \<^verbatim>\<open>verify_otp\<close> examines the record of the second call alone: any other code is
  invalid, and the first call's code succeeds until the expiry of the second record,
  whatever the expiry of the first. When no older document bears the identifier of the
  second record, a successful verification marks the second record and leaves the first
  as it was issued.
\<close>

theorem second_start_supersedes_first:
  assumes "OTPStartRequest_valid req"
    and "\<forall>d \<in> set (colls s ''otprequest''). for_key (s_phone req) (s_purpose req) d \<longrightarrow>
           field_time ''created_at'' d < Some i1"
    and "i1 < i2"
  shows "\<exists>db1 db2.
           start_otp n1 i1 True req (Some s) =
             (Inr [(''success'', VBool True), (''message'', VStr ''OTP sent''),
                   (''demo_code'', VStr ''123456'')], db1) \<and>
           start_otp n2 i2 True req db1 =
             (Inr [(''success'', VBool True), (''message'', VStr ''OTP sent''),
                   (''demo_code'', VStr ''123456'')], db2) \<and>
           otp_recs db2 (s_phone req) (s_purpose req) =
             [otp_doc (Suc (next_id s)) (s_phone req) (s_purpose req) ''123456'' (n2 + ten_minutes) i2] \<and>
           (\<forall>c now1 now2.
              fst (verify_otp now1 now2
                     \<lparr>v_phone = s_phone req, v_purpose = s_purpose req, v_code = c\<rparr> db2) =
                (if c \<noteq> ''123456'' then Inl (HTTPException 400 ''Invalid OTP'')
                 else if n2 + ten_minutes < now1 then Inl (HTTPException 400 ''OTP expired'')
                 else Inr [(''success'', VBool True)])) \<and>
           (\<forall>now1 now2.
              (\<forall>d \<in> set (colls s ''otprequest''). map_of d ''_id'' \<noteq> Some (VId (Suc (next_id s)))) \<and>
              now1 \<le> n2 + ten_minutes \<longrightarrow>
              stored ''otprequest''
                (snd (verify_otp now1 now2
                        \<lparr>v_phone = s_phone req, v_purpose = s_purpose req, v_code = ''123456''\<rparr> db2)) =
                colls s ''otprequest'' @
                  [otp_doc (next_id s) (s_phone req) (s_purpose req) ''123456'' (n1 + ten_minutes) i1,
                   verified_doc (Suc (next_id s)) (s_phone req) (s_purpose req) ''123456''
                     (n2 + ten_minutes) i2 now2])"
proof -
  let ?p = "s_phone req" and ?q = "s_purpose req"
  let ?d1 = "otp_doc (next_id s) ?p ?q ''123456'' (n1 + ten_minutes) i1"
  let ?d2 = "otp_doc (Suc (next_id s)) ?p ?q ''123456'' (n2 + ten_minutes) i2"
  let ?s1 = "inserted ''otprequest'' ?d1 s"
  let ?s2 = "inserted ''otprequest'' ?d2 ?s1"
  have nid: "next_id ?s1 = Suc (next_id s)" by (simp add: inserted_def)
  have st1: "start_otp n1 i1 True req (Some s) =
      (Inr [(''success'', VBool True), (''message'', VStr ''OTP sent''),
            (''demo_code'', VStr ''123456'')], Some ?s1)"
    by (rule start_otp_Some [OF assms(1)])
  have st2: "start_otp n2 i2 True req (Some ?s1) =
      (Inr [(''success'', VBool True), (''message'', VStr ''OTP sent''),
            (''demo_code'', VStr ''123456'')], Some ?s2)"
    using start_otp_Some [OF assms(1), of n2 i2 ?s1] by (simp only: nid)
  have older: "\<forall>e \<in> set (colls ?s1 ''otprequest''). for_key ?p ?q e \<longrightarrow>
      field_time ''created_at'' e < field_time ''created_at'' ?d2"
    using assms(2,3) by (auto simp: colls_inserted otp_doc_fields intro: less_trans)
  have recs: "otp_recs (Some ?s2) ?p ?q = [?d2]"
    using older by (intro otp_recs_inserted) (simp_all add: otp_doc_fields)
  have out: "fst (verify_otp now1 now2 \<lparr>v_phone = ?p, v_purpose = ?q, v_code = c\<rparr> (Some ?s2)) =
      (if c \<noteq> ''123456'' then Inl (HTTPException 400 ''Invalid OTP'')
       else if n2 + ten_minutes < now1 then Inl (HTTPException 400 ''OTP expired'')
       else Inr [(''success'', VBool True)])" for c now1 now2
    using recs
    by (subst verify_otp_on_issued [where i = "Suc (next_id s)" and p = ?p and q = ?q
          and c = "''123456''" and e = "n2 + ten_minutes" and t = i2]) auto
  have mut: "stored ''otprequest''
      (snd (verify_otp now1 now2 \<lparr>v_phone = ?p, v_purpose = ?q, v_code = ''123456''\<rparr> (Some ?s2))) =
      colls s ''otprequest'' @
        [?d1, verified_doc (Suc (next_id s)) ?p ?q ''123456'' (n2 + ten_minutes) i2 now2]"
    if fresh: "\<forall>d \<in> set (colls s ''otprequest''). map_of d ''_id'' \<noteq> Some (VId (Suc (next_id s)))"
      and live: "now1 \<le> n2 + ten_minutes" for now1 now2
  proof -
    have "\<forall>d \<in> set (colls s ''otprequest'' @ [?d1]). \<not> matches [(''_id'', VId (Suc (next_id s)))] d"
      using fresh by (auto simp: matches_id otp_doc_fields)
    then have "update_first (matches [(''_id'', VId (Suc (next_id s)))])
        (set_fields [(''verified'', VBool True), (''updated_at'', VTime now2)])
        ((colls s ''otprequest'' @ [?d1]) @ [?d2]) =
        (colls s ''otprequest'' @ [?d1]) @
          [verified_doc (Suc (next_id s)) ?p ?q ''123456'' (n2 + ten_minutes) i2 now2]"
      by (subst update_first_append) (simp_all add: matches_id otp_doc_fields set_fields_otp_doc)
    then show ?thesis using recs live
      by (simp add: verify_otp_def otp_doc_fields stored_def update_one_def colls_inserted)
  qed
  from st1 st2 recs out mut show ?thesis by blast
qed

theorem second_start_supersedes_first_witness:
  "fst (verify_otp (10 + ten_minutes) 99 (demo_req ''123456'')
          (snd (start_otp 10 11 True start_req
             (snd (start_otp 0 1 True start_req (Some empty_store)))))) =
     Inr [(''success'', VBool True)] \<and>
   stored ''otprequest''
     (snd (verify_otp (10 + ten_minutes) 99 (demo_req ''123456'')
          (snd (start_otp 10 11 True start_req
             (snd (start_otp 0 1 True start_req (Some empty_store))))))) =
     [otp_doc 0 ''9999999999'' ''franchise'' ''123456'' (0 + ten_minutes) 1,
      verified_doc 1 ''9999999999'' ''franchise'' ''123456'' (10 + ten_minutes) 11 99]"
proof -
  have valid: "OTPStartRequest_valid start_req"
    by (simp add: start_req_def OTPStartRequest_valid_def)
  have older: "\<forall>d \<in> set (colls empty_store ''otprequest'').
      for_key (s_phone start_req) (s_purpose start_req) d \<longrightarrow>
      field_time ''created_at'' d < Some 1"
    by (simp add: empty_store_def)
  have fresh: "\<forall>d \<in> set (colls empty_store ''otprequest'').
      map_of d ''_id'' \<noteq> Some (VId (Suc (next_id empty_store)))"
    by (simp add: empty_store_def)
  from second_start_supersedes_first [OF valid older, of 11 0 10]
  obtain db1 db2 where
    st1: "start_otp 0 1 True start_req (Some empty_store) =
           (Inr [(''success'', VBool True), (''message'', VStr ''OTP sent''),
                 (''demo_code'', VStr ''123456'')], db1)"
    and st2: "start_otp 10 11 True start_req db1 =
           (Inr [(''success'', VBool True), (''message'', VStr ''OTP sent''),
                 (''demo_code'', VStr ''123456'')], db2)"
    and out: "\<And>c now1 now2.
        fst (verify_otp now1 now2
               \<lparr>v_phone = s_phone start_req, v_purpose = s_purpose start_req, v_code = c\<rparr> db2) =
          (if c \<noteq> ''123456'' then Inl (HTTPException 400 ''Invalid OTP'')
           else if 10 + ten_minutes < now1 then Inl (HTTPException 400 ''OTP expired'')
           else Inr [(''success'', VBool True)])"
    and mut: "\<And>now1 now2.
        (\<forall>d \<in> set (colls empty_store ''otprequest'').
            map_of d ''_id'' \<noteq> Some (VId (Suc (next_id empty_store)))) \<and>
        now1 \<le> 10 + ten_minutes \<longrightarrow>
        stored ''otprequest''
          (snd (verify_otp now1 now2
                  \<lparr>v_phone = s_phone start_req, v_purpose = s_purpose start_req,
                     v_code = ''123456''\<rparr> db2)) =
          colls empty_store ''otprequest'' @
            [otp_doc (next_id empty_store) (s_phone start_req) (s_purpose start_req) ''123456''
               (0 + ten_minutes) 1,
             verified_doc (Suc (next_id empty_store)) (s_phone start_req) (s_purpose start_req)
               ''123456'' (10 + ten_minutes) 11 now2]"
    by auto
  have db2: "snd (start_otp 10 11 True start_req
      (snd (start_otp 0 1 True start_req (Some empty_store)))) = db2"
    using st1 st2 by simp
  from out [of "10 + ten_minutes" 99 "''123456''"] mut [of "10 + ten_minutes" 99] fresh
  show ?thesis
    unfolding db2 by (simp add: demo_req_def start_req_def empty_store_def)
qed

section \<open>Repeated verification\<close>

lemma map_of_mark:
  "map_of (mark u d) k =
     (if k = ''updated_at'' then Some (VTime u)
      else if k = ''verified'' then Some (VBool True) else map_of d k)"
  by (simp add: mark_def set_fields_def update_conv')

lemma update_first_distinct:
  "distinct (map key ds) \<Longrightarrow>
   update_first (\<lambda>d. key d = v) f ds = map (\<lambda>d. if key d = v then f d else d) ds"
proof (induction ds)
  case Nil
  then show ?case by simp
next
  case (Cons d ds)
  show ?case
  proof (cases "key d = v")
    case True
    with Cons.prems have "\<forall>e \<in> set ds. key e \<noteq> v" by (auto simp: image_iff)
    then have "map (\<lambda>d. if key d = v then f d else d) ds = ds"
      by (induction ds) auto
    with True show ?thesis by simp
  next
    case False
    with Cons show ?thesis by simp
  qed
qed

lemma insort_desc_map:
  "(\<And>d. field_time k (g d) = field_time k d) \<Longrightarrow>
   insort_desc k (g d) (map g es) = map g (insort_desc k d es)"
  by (induction es) auto

lemma sort_desc_map:
  "(\<And>d. field_time k (g d) = field_time k d) \<Longrightarrow> sort_desc k (map g ds) = map g (sort_desc k ds)"
  by (induction ds) (simp_all add: sort_desc_Nil sort_desc_Cons insort_desc_map)

lemma mark_id_preserves:
  "for_key p q (mark_id i u d) = for_key p q d"
  "field_time ''created_at'' (mark_id i u d) = field_time ''created_at'' d"
  "map_of (mark_id i u d) ''code'' = map_of d ''code''"
  "map_of (mark_id i u d) ''_id'' = map_of d ''_id''"
  "expired t (mark_id i u d) = expired t d"
  by (simp_all add: mark_id_def for_key_def field_time_def expired_def map_of_mark)

lemma otp_recs_map:
  "otp_recs (Some (s\<lparr>colls := (colls s)(''otprequest'' := map (mark_id i u) (colls s ''otprequest''))\<rparr>)) p q =
     map (mark_id i u) (otp_recs (Some s) p q)"
proof -
  have f: "filter (for_key p q) (map (mark_id i u) ds) = map (mark_id i u) (filter (for_key p q) ds)" for ds
    by (induction ds) (simp_all add: mark_id_preserves)
  have "sort_desc ''created_at'' (map (mark_id i u) ds) = map (mark_id i u) (sort_desc ''created_at'' ds)" for ds
    by (rule sort_desc_map) (simp add: mark_id_preserves)
  with f show ?thesis
    by (simp add: otp_recs_Some split: list.splits)
qed

lemma update_one_mark:
  assumes "otp_ids_ok s"
  shows "update_one ''otprequest'' [(''_id'', i)] [(''verified'', VBool True), (''updated_at'', VTime u)] s =
           s\<lparr>colls := (colls s)(''otprequest'' := map (mark_id i u) (colls s ''otprequest''))\<rparr>"
proof -
  have m: "matches [(''_id'', i)] = (\<lambda>d. map_of d ''_id'' = Some i)"
    by (rule ext) (rule matches_id)
  have "mark_id i u = (\<lambda>d. if map_of d ''_id'' = Some i then mark u d else d)"
    by (rule ext) (simp add: mark_id_def)
  moreover have "distinct (map (\<lambda>d. map_of d ''_id'') (colls s ''otprequest''))"
    using assms by (simp add: otp_ids_ok_def)
  ultimately show ?thesis
    using update_first_distinct [of "\<lambda>d. map_of d ''_id''" "colls s ''otprequest''" "Some i" "mark u"]
    by (simp add: update_one_def m mark_def)
qed

lemma id_below_has_id: "id_below n d \<Longrightarrow> \<exists>i. map_of d ''_id'' = Some (VId i) \<and> i < n"
  by (auto simp: id_below_def split: option.splits val.splits)

lemma id_below_mono: "id_below n d \<Longrightarrow> n \<le> m \<Longrightarrow> id_below m d"
proof -
  assume "id_below n d" and le: "n \<le> m"
  then obtain i where "map_of d ''_id'' = Some (VId i)" and "i < n"
    using id_below_has_id by blast
  with le show ?thesis by (simp add: id_below_def)
qed

lemma id_below_mark_id: "id_below n (mark_id i u d) = id_below n d"
  by (simp add: id_below_def mark_id_preserves)

lemma otp_ids_ok_mark:
  "otp_ids_ok s \<Longrightarrow>
   otp_ids_ok (s\<lparr>colls := (colls s)(''otprequest'' := map (mark_id i u) (colls s ''otprequest''))\<rparr>)"
  by (simp add: otp_ids_ok_def comp_def mark_id_preserves list_all_iff id_below_mark_id)

lemma otp_ids_ok_empty: "otp_ids_ok empty_store"
  by (simp add: otp_ids_ok_def empty_store_def)

lemma otp_ids_ok_inserted:
  assumes "otp_ids_ok s" and "map_of d ''_id'' = Some (VId (next_id s))"
  shows "otp_ids_ok (inserted c d s)"
proof -
  have below: "\<forall>e \<in> set (colls s ''otprequest''). id_below (next_id s) e"
    using assms(1) by (simp add: otp_ids_ok_def list_all_iff)
  then have up: "\<forall>e \<in> set (colls s ''otprequest''). id_below (Suc (next_id s)) e"
    by (auto intro: id_below_mono)
  have fresh: "map_of d ''_id'' \<notin> (\<lambda>e. map_of e ''_id'') ` set (colls s ''otprequest'')"
    using below assms(2) by (auto dest!: bspec id_below_has_id)
  have "id_below (Suc (next_id s)) d"
    using assms(2) by (simp add: id_below_def)
  with assms(1) up fresh show ?thesis
    by (auto simp: otp_ids_ok_def inserted_def list_all_iff)
qed

lemma verify_otp_step:
  assumes recs: "otp_recs (Some s) (v_phone req) (v_purpose req) = [rec]"
    and code: "map_of rec ''code'' = Some (VStr (v_code req))"
    and live: "expired now1 rec = Inr False"
    and ids: "otp_ids_ok s"
  shows "\<exists>s' rec'. verify_otp now1 now2 req (Some s) = (Inr [(''success'', VBool True)], Some s') \<and>
           otp_recs (Some s') (v_phone req) (v_purpose req) = [rec'] \<and>
           map_of rec' ''code'' = map_of rec ''code'' \<and>
           map_of rec' ''_id'' = map_of rec ''_id'' \<and>
           (\<forall>t. expired t rec' = expired t rec) \<and>
           map_of rec' ''verified'' = Some (VBool True) \<and>
           otp_ids_ok s'"
proof -
  from otp_recs_Cons [OF recs] have "rec \<in> set (colls s ''otprequest'')" by simp
  with ids obtain i where i: "map_of rec ''_id'' = Some i"
    by (auto simp: otp_ids_ok_def list_all_iff dest!: bspec id_below_has_id)
  let ?s' = "s\<lparr>colls := (colls s)(''otprequest'' := map (mark_id i now2) (colls s ''otprequest''))\<rparr>"
  have v: "verify_otp now1 now2 req (Some s) = (Inr [(''success'', VBool True)], Some ?s')"
    using recs code live i by (simp add: verify_otp_def update_one_mark [OF ids])
  have r: "otp_recs (Some ?s') (v_phone req) (v_purpose req) = [mark_id i now2 rec]"
    by (simp add: otp_recs_map recs)
  have "map_of (mark_id i now2 rec) ''verified'' = Some (VBool True)"
    using i by (simp add: mark_id_def map_of_mark)
  with v r otp_ids_ok_mark [OF ids, of i now2] show ?thesis
    by (auto simp: mark_id_preserves)
qed

lemma verify_many_all:
  assumes "otp_recs (Some s) (v_phone req) (v_purpose req) = [rec]"
    and "map_of rec ''code'' = Some (VStr (v_code req))"
    and "otp_ids_ok s"
    and "\<forall>(now1, now2) \<in> set ts. expired now1 rec = Inr False"
  shows "\<exists>s' rec'. verify_many ts req (Some s) =
             (replicate (length ts) (Inr [(''success'', VBool True)]), Some s') \<and>
           otp_recs (Some s') (v_phone req) (v_purpose req) = [rec'] \<and>
           map_of rec' ''_id'' = map_of rec ''_id'' \<and>
           (ts \<noteq> [] \<or> map_of rec ''verified'' = Some (VBool True) \<longrightarrow>
              map_of rec' ''verified'' = Some (VBool True))"
  using assms
proof (induction ts arbitrary: s rec)
  case Nil
  then show ?case by simp
next
  case (Cons t ts)
  obtain now1 now2 where t: "t = (now1, now2)" by (cases t)
  from Cons.prems(4) t have live: "expired now1 rec = Inr False" by simp
  from verify_otp_step [OF Cons.prems(1,2) live Cons.prems(3), of now2]
  obtain s1 rec1 where
    v: "verify_otp now1 now2 req (Some s) = (Inr [(''success'', VBool True)], Some s1)"
    and r1: "otp_recs (Some s1) (v_phone req) (v_purpose req) = [rec1]"
    and c1: "map_of rec1 ''code'' = map_of rec ''code''"
    and i1: "map_of rec1 ''_id'' = map_of rec ''_id''"
    and e1: "\<forall>t. expired t rec1 = expired t rec"
    and f1: "map_of rec1 ''verified'' = Some (VBool True)"
    and ok1: "otp_ids_ok s1"
    by blast
  have code1: "map_of rec1 ''code'' = Some (VStr (v_code req))"
    using c1 Cons.prems(2) by simp
  have live1: "\<forall>(now1, now2) \<in> set ts. expired now1 rec1 = Inr False"
    using Cons.prems(4) e1 by auto
  from Cons.IH [OF r1 code1 ok1 live1]
  obtain s' rec' where
    m: "verify_many ts req (Some s1) = (replicate (length ts) (Inr [(''success'', VBool True)]), Some s')"
    and r': "otp_recs (Some s') (v_phone req) (v_purpose req) = [rec']"
    and i': "map_of rec' ''_id'' = map_of rec1 ''_id''"
    and f': "map_of rec' ''verified'' = Some (VBool True)"
    using f1 by blast
  have "verify_many (t # ts) req (Some s) =
      (replicate (length (t # ts)) (Inr [(''success'', VBool True)]), Some s')"
    using t v m by simp
  with r' i' i1 f' show ?case by auto
qed

text \<open>
  C8. Let the newest record of the phone and purpose hold the supplied code, in a
  connected store that satisfies the identifier invariant. Then every call of a sequence
  of \<^verbatim>\<open>verify_otp\<close> calls with the same request, each at a clock reading for which the
  record is unexpired, returns success; after the first call and after every later one
  the newest record is the same record (same identifier) with \<^verbatim>\<open>verified\<close> true.
\<close>

theorem verify_otp_success_idempotent:
  assumes "otp_recs (Some s) (v_phone req) (v_purpose req) = [rec]"
    and "map_of rec ''code'' = Some (VStr (v_code req))"
    and "otp_ids_ok s"
    and "\<forall>(now1, now2) \<in> set ts. expired now1 rec = Inr False"
    and "ts \<noteq> []"
  shows "\<exists>db' rec'. verify_many ts req (Some s) =
             (replicate (length ts) (Inr [(''success'', VBool True)]), db') \<and>
           otp_recs db' (v_phone req) (v_purpose req) = [rec'] \<and>
           map_of rec' ''_id'' = map_of rec ''_id'' \<and>
           map_of rec' ''verified'' = Some (VBool True)"
  using verify_many_all [OF assms(1-4)] assms(5) by blast

theorem verify_otp_success_idempotent_witness:
  "fst (verify_many [(200, 201), (300, 301), (600, 601)] (demo_req ''123456'') (Some demo_store)) =
     [Inr [(''success'', VBool True)], Inr [(''success'', VBool True)], Inr [(''success'', VBool True)]] \<and>
   (\<exists>rec'. otp_recs
        (snd (verify_many [(200, 201), (300, 301), (600, 601)] (demo_req ''123456'') (Some demo_store)))
        ''9999999999'' ''franchise'' = [rec'] \<and>
      map_of rec' ''_id'' = Some (VId 1) \<and> map_of rec' ''verified'' = Some (VBool True))"
proof -
  let ?rec = "otp_doc 1 ''9999999999'' ''franchise'' ''123456'' 600 100"
  have recs: "otp_recs (Some demo_store) (v_phone (demo_req ''123456'')) (v_purpose (demo_req ''123456'')) = [?rec]"
    using demo_recs by (simp add: demo_req_def)
  have code: "map_of ?rec ''code'' = Some (VStr (v_code (demo_req ''123456'')))"
    by (simp add: otp_doc_fields demo_req_def)
  have ids: "otp_ids_ok demo_store"
    by (simp add: otp_ids_ok_def id_below_def demo_store_def otp_doc_def)
  have live: "\<forall>(now1, now2) \<in> set [(200, 201), (300, 301), (600, 601)]. expired now1 ?rec = Inr False"
    by (simp add: otp_doc_fields)
  from verify_otp_success_idempotent [OF recs code ids live]
  show ?thesis by (auto simp: demo_req_def otp_doc_fields)
qed

section \<open>The upload of the mall submission\<close>

lemma verify_otp_cases:
  "verify_otp now1 now2 req db = (r, db') \<Longrightarrow>
     (\<exists>e. r = Inl e \<and> e \<noteq> StoreUnavailable \<and> e \<noteq> WriteError \<and> db' = db) \<or>
     (r = Inr [(''success'', VBool True)] \<and> stored ''mallinquiry'' db' = stored ''mallinquiry'' db \<and>
        (db = None \<longleftrightarrow> db' = None))"
  by (cases db)
    (auto simp: verify_otp_def expired_def stored_def update_one_def
      split: list.splits if_splits sum.splits bool.splits option.splits val.splits)

lemma store_upload_Some:
  "store_upload stamp disk (Some up) fs =
     (case disk of
        FailMakedirs \<Rightarrow> (Inl IOError, fs)
      | FailOpen \<Rightarrow> (Inl IOError, fs)
      | FailRead \<Rightarrow> (Inl IOError, fs(''public/uploads/'' @ stamp @ ''_'' @ u_filename up \<mapsto> []))
      | FailWrite k \<Rightarrow>
          (Inl IOError, fs(''public/uploads/'' @ stamp @ ''_'' @ u_filename up \<mapsto> take k (u_content up)))
      | DiskOk \<Rightarrow>
          (Inr (VDoc [(''filename'', VStr (stamp @ ''_'' @ u_filename up)),
                      (''path'', VStr (''/uploads/'' @ stamp @ ''_'' @ u_filename up)),
                      (''size'', VInt (int (length (u_content up))))]),
           fs(''public/uploads/'' @ stamp @ ''_'' @ u_filename up \<mapsto> u_content up)))"
  by (simp add: store_upload_def Let_def split: disk.splits)

lemma submit_mall_after_gate:
  assumes "(m_otp_code f = None \<or> m_otp_code f = Some []) \<and> db1 = db \<or>
       (\<exists>c x. m_otp_code f = Some c \<and> c \<noteq> [] \<and>
          verify_otp now1 now2 \<lparr>v_phone = m_phone f, v_purpose = ''mall'', v_code = c\<rparr> db = (Inr x, db1))"
  shows "submit_mall now1 now2 stamp disk now_ins ok f (db, fs) =
     (case store_upload stamp disk (m_floorplan f) fs of
        (Inl e, fs') \<Rightarrow> (Inl e, db1, fs')
      | (Inr file_meta, fs') \<Rightarrow>
          (case create_document now_ins ok ''mallinquiry'' (mall_data f file_meta) db1 of
             (Inl e, db'') \<Rightarrow> (Inl e, db'', fs')
           | (Inr doc_id, db'') \<Rightarrow>
               (Inr [(''success'', VBool True), (''id'', VId doc_id), (''file'', file_meta)],
                db'', fs')))"
  using assms by (auto simp: submit_mall_def)

text \<open>
  C9. Take a mall submission with a file part that passes the gate, by carrying no code
  or by a successful verification. When the disk goes through, the files hold the whole
  content under \<^verbatim>\<open>public/uploads/\<close> and the name made of the timestamp, an underscore
  and the original name, in every outcome of the insertion that follows: without a
  connection and with a failed write the file is there and no document is, and on success
  the response and the one new \<^verbatim>\<open>mallinquiry\<close> document carry the same metadata, that
  name, its public path and the number of bytes of the content. When the disk fails, no
  document is created; a failure after the file was opened leaves the part written so
  far.
\<close>

theorem upload_before_document:
  assumes fp: "m_floorplan f = Some up"
    and gate: "(m_otp_code f = None \<or> m_otp_code f = Some []) \<and> db1 = db \<or>
       (\<exists>c x. m_otp_code f = Some c \<and> c \<noteq> [] \<and>
          verify_otp now1 now2 \<lparr>v_phone = m_phone f, v_purpose = ''mall'', v_code = c\<rparr> db = (Inr x, db1))"
  shows "stored ''mallinquiry'' db1 = stored ''mallinquiry'' db \<and>
     submit_mall now1 now2 stamp DiskOk now_ins ok f (db, fs) =
       (case db1 of
          None \<Rightarrow>
            (Inl StoreUnavailable, None,
             fs(''public/uploads/'' @ stamp @ ''_'' @ u_filename up \<mapsto> u_content up))
        | Some s \<Rightarrow>
            if ok
            then (Inr [(''success'', VBool True), (''id'', VId (next_id s)),
                       (''file'', VDoc [(''filename'', VStr (stamp @ ''_'' @ u_filename up)),
                                        (''path'', VStr (''/uploads/'' @ stamp @ ''_'' @ u_filename up)),
                                        (''size'', VInt (int (length (u_content up))))])],
                  Some (s\<lparr>colls := (colls s)(''mallinquiry'' := colls s ''mallinquiry'' @
                           [[(''contact_name'', VStr (m_contact_name f)),
                             (''email'', VStr (m_email f)),
                             (''phone'', VStr (m_phone f)),
                             (''mall_name'', VStr (m_mall_name f)),
                             (''location_city'', VStr (m_location_city f)),
                             (''available_space_sqft'', VInt (m_available_space_sqft f)),
                             (''message'', (case m_message f of None \<Rightarrow> VNone | Some m \<Rightarrow> VStr m)),
                             (''floorplan'',
                              VDoc [(''filename'', VStr (stamp @ ''_'' @ u_filename up)),
                                    (''path'', VStr (''/uploads/'' @ stamp @ ''_'' @ u_filename up)),
                                    (''size'', VInt (int (length (u_content up))))]),
                             (''created_at'', VTime now_ins),
                             (''_id'', VId (next_id s))]]),
                          next_id := Suc (next_id s)\<rparr>),
                  fs(''public/uploads/'' @ stamp @ ''_'' @ u_filename up \<mapsto> u_content up))
            else (Inl WriteError, Some s,
                  fs(''public/uploads/'' @ stamp @ ''_'' @ u_filename up \<mapsto> u_content up))) \<and>
     submit_mall now1 now2 stamp FailMakedirs now_ins ok f (db, fs) = (Inl IOError, db1, fs) \<and>
     submit_mall now1 now2 stamp FailOpen now_ins ok f (db, fs) = (Inl IOError, db1, fs) \<and>
     submit_mall now1 now2 stamp FailRead now_ins ok f (db, fs) =
       (Inl IOError, db1, fs(''public/uploads/'' @ stamp @ ''_'' @ u_filename up \<mapsto> [])) \<and>
     submit_mall now1 now2 stamp (FailWrite k) now_ins ok f (db, fs) =
       (Inl IOError, db1,
        fs(''public/uploads/'' @ stamp @ ''_'' @ u_filename up \<mapsto> take k (u_content up)))"
proof -
  have same: "stored ''mallinquiry'' db1 = stored ''mallinquiry'' db"
    using gate verify_otp_cases [of now1 now2 _ db _ db1] by auto
  have fails: "submit_mall now1 now2 stamp FailMakedirs now_ins ok f (db, fs) = (Inl IOError, db1, fs)"
    "submit_mall now1 now2 stamp FailOpen now_ins ok f (db, fs) = (Inl IOError, db1, fs)"
    "submit_mall now1 now2 stamp FailRead now_ins ok f (db, fs) =
       (Inl IOError, db1, fs(''public/uploads/'' @ stamp @ ''_'' @ u_filename up \<mapsto> []))"
    "submit_mall now1 now2 stamp (FailWrite k) now_ins ok f (db, fs) =
       (Inl IOError, db1,
        fs(''public/uploads/'' @ stamp @ ''_'' @ u_filename up \<mapsto> take k (u_content up)))"
    by (simp_all add: submit_mall_after_gate [OF gate] fp store_upload_Some)
  have good: "submit_mall now1 now2 stamp DiskOk now_ins ok f (db, fs) =
       (case db1 of
          None \<Rightarrow>
            (Inl StoreUnavailable, None,
             fs(''public/uploads/'' @ stamp @ ''_'' @ u_filename up \<mapsto> u_content up))
        | Some s \<Rightarrow>
            if ok
            then (Inr [(''success'', VBool True), (''id'', VId (next_id s)),
                       (''file'', VDoc [(''filename'', VStr (stamp @ ''_'' @ u_filename up)),
                                        (''path'', VStr (''/uploads/'' @ stamp @ ''_'' @ u_filename up)),
                                        (''size'', VInt (int (length (u_content up))))])],
                  Some (s\<lparr>colls := (colls s)(''mallinquiry'' := colls s ''mallinquiry'' @
                           [[(''contact_name'', VStr (m_contact_name f)),
                             (''email'', VStr (m_email f)),
                             (''phone'', VStr (m_phone f)),
                             (''mall_name'', VStr (m_mall_name f)),
                             (''location_city'', VStr (m_location_city f)),
                             (''available_space_sqft'', VInt (m_available_space_sqft f)),
                             (''message'', (case m_message f of None \<Rightarrow> VNone | Some m \<Rightarrow> VStr m)),
                             (''floorplan'',
                              VDoc [(''filename'', VStr (stamp @ ''_'' @ u_filename up)),
                                    (''path'', VStr (''/uploads/'' @ stamp @ ''_'' @ u_filename up)),
                                    (''size'', VInt (int (length (u_content up))))]),
                             (''created_at'', VTime now_ins),
                             (''_id'', VId (next_id s))]]),
                          next_id := Suc (next_id s)\<rparr>),
                  fs(''public/uploads/'' @ stamp @ ''_'' @ u_filename up \<mapsto> u_content up))
            else (Inl WriteError, Some s,
                  fs(''public/uploads/'' @ stamp @ ''_'' @ u_filename up \<mapsto> u_content up)))"
    by (cases db1)
      (simp_all add: submit_mall_after_gate [OF gate] fp store_upload_Some create_document_def
        mall_data_def opt_str_def)
  from same good fails show ?thesis by (intro conjI)
qed

lemma demo_mall_verify:
  "verify_otp 200 201 \<lparr>v_phone = ''8888888888'', v_purpose = ''mall'', v_code = ''123456''\<rparr>
     (Some demo_mall_store) =
   (Inr [(''success'', VBool True)],
    Some (update_one ''otprequest'' [(''_id'', VId 0)]
            [(''verified'', VBool True), (''updated_at'', VTime 201)] demo_mall_store))"
proof -
  have "otp_recs (Some demo_mall_store) ''8888888888'' ''mall'' =
      [otp_doc 0 ''8888888888'' ''mall'' ''123456'' 600 100]"
    by (simp add: otp_recs_def limit_def sort_desc_def find_docs_def matches_def demo_mall_store_def
        otp_doc_def)
  then show ?thesis
    by (simp add: verify_otp_def otp_doc_fields)
qed

theorem upload_before_document_witness:
  "submit_mall 200 201 ''20261104120000'' DiskOk 202 True (demo_form None (Some demo_upload))
       (None, Map.empty) =
     (Inl StoreUnavailable, None,
      Map.empty(''public/uploads/20261104120000_plan.pdf'' \<mapsto> ''%PDF-1.7'')) \<and>
   fst (submit_mall 200 201 ''20261104120000'' DiskOk 202 True
          (demo_form (Some ''123456'') (Some demo_upload)) (Some demo_mall_store, Map.empty)) =
     Inr [(''success'', VBool True), (''id'', VId 1),
          (''file'', VDoc [(''filename'', VStr ''20261104120000_plan.pdf''),
                           (''path'', VStr ''/uploads/20261104120000_plan.pdf''),
                           (''size'', VInt 8)])] \<and>
   stored ''mallinquiry''
     (fst (snd (submit_mall 200 201 ''20261104120000'' DiskOk 202 True
                  (demo_form (Some ''123456'') (Some demo_upload))
                  (Some demo_mall_store, Map.empty)))) =
     [[(''contact_name'', VStr ''Ravi Nair''), (''email'', VStr ''ravi@example.com''),
       (''phone'', VStr ''8888888888''), (''mall_name'', VStr ''Orion''),
       (''location_city'', VStr ''Kochi''), (''available_space_sqft'', VInt 4000),
       (''message'', VNone),
       (''floorplan'', VDoc [(''filename'', VStr ''20261104120000_plan.pdf''),
                             (''path'', VStr ''/uploads/20261104120000_plan.pdf''),
                             (''size'', VInt 8)]),
       (''created_at'', VTime 202), (''_id'', VId 1)]] \<and>
   snd (snd (submit_mall 200 201 ''20261104120000'' DiskOk 202 True
               (demo_form (Some ''123456'') (Some demo_upload))
               (Some demo_mall_store, Map.empty))) =
     Map.empty(''public/uploads/20261104120000_plan.pdf'' \<mapsto> ''%PDF-1.7'') \<and>
   submit_mall 200 201 ''20261104120000'' (FailWrite 4) 202 True
       (demo_form None (Some demo_upload)) (Some demo_mall_store, Map.empty) =
     (Inl IOError, Some demo_mall_store,
      Map.empty(''public/uploads/20261104120000_plan.pdf'' \<mapsto> ''%PDF''))"
proof -
  let ?f0 = "demo_form None (Some demo_upload)"
  let ?f1 = "demo_form (Some ''123456'') (Some demo_upload)"
  let ?s1 = "update_one ''otprequest'' [(''_id'', VId 0)]
            [(''verified'', VBool True), (''updated_at'', VTime 201)] demo_mall_store"
  have fp0: "m_floorplan ?f0 = Some demo_upload" and fp1: "m_floorplan ?f1 = Some demo_upload"
    by (simp_all add: demo_form_def)
  have g0: "(m_otp_code ?f0 = None \<or> m_otp_code ?f0 = Some []) \<and> db = db \<or>
       (\<exists>c x. m_otp_code ?f0 = Some c \<and> c \<noteq> [] \<and>
          verify_otp 200 201 \<lparr>v_phone = m_phone ?f0, v_purpose = ''mall'', v_code = c\<rparr> db = (Inr x, db))"
    for db
    by (simp add: demo_form_def)
  have g1: "(m_otp_code ?f1 = None \<or> m_otp_code ?f1 = Some []) \<and> Some ?s1 = Some demo_mall_store \<or>
       (\<exists>c x. m_otp_code ?f1 = Some c \<and> c \<noteq> [] \<and>
          verify_otp 200 201 \<lparr>v_phone = m_phone ?f1, v_purpose = ''mall'', v_code = c\<rparr>
            (Some demo_mall_store) = (Inr x, Some ?s1))"
    using demo_mall_verify by (simp add: demo_form_def)
  have s1: "next_id ?s1 = 1" "colls ?s1 ''mallinquiry'' = []"
    by (simp_all add: update_one_def demo_mall_store_def)
  have a: "submit_mall 200 201 ''20261104120000'' DiskOk 202 True ?f0 (None, Map.empty) =
     (Inl StoreUnavailable, None,
      Map.empty(''public/uploads/20261104120000_plan.pdf'' \<mapsto> ''%PDF-1.7''))"
    using upload_before_document [OF fp0 g0, of None "''20261104120000''" 202 True Map.empty]
    by (simp add: demo_upload_def)
  have b: "submit_mall 200 201 ''20261104120000'' DiskOk 202 True ?f1
      (Some demo_mall_store, Map.empty) =
     (Inr [(''success'', VBool True), (''id'', VId 1),
           (''file'', VDoc [(''filename'', VStr ''20261104120000_plan.pdf''),
                            (''path'', VStr ''/uploads/20261104120000_plan.pdf''),
                            (''size'', VInt 8)])],
      Some (?s1\<lparr>colls := (colls ?s1)(''mallinquiry'' :=
               [[(''contact_name'', VStr ''Ravi Nair''), (''email'', VStr ''ravi@example.com''),
                 (''phone'', VStr ''8888888888''), (''mall_name'', VStr ''Orion''),
                 (''location_city'', VStr ''Kochi''), (''available_space_sqft'', VInt 4000),
                 (''message'', VNone),
                 (''floorplan'', VDoc [(''filename'', VStr ''20261104120000_plan.pdf''),
                                       (''path'', VStr ''/uploads/20261104120000_plan.pdf''),
                                       (''size'', VInt 8)]),
                 (''created_at'', VTime 202), (''_id'', VId 1)]]),
             next_id := 2\<rparr>),
      Map.empty(''public/uploads/20261104120000_plan.pdf'' \<mapsto> ''%PDF-1.7''))"
    using upload_before_document [OF fp1 g1, of "''20261104120000''" 202 True Map.empty]
    by (simp add: s1) (simp add: demo_form_def demo_upload_def)
  have c: "submit_mall 200 201 ''20261104120000'' (FailWrite 4) 202 True ?f0
      (Some demo_mall_store, Map.empty) =
     (Inl IOError, Some demo_mall_store,
      Map.empty(''public/uploads/20261104120000_plan.pdf'' \<mapsto> ''%PDF''))"
    using upload_before_document [OF fp0 g0, of "Some demo_mall_store" "''20261104120000''" 202 True
        Map.empty 4]
    by (simp add: demo_upload_def)
  show ?thesis
    unfolding a b c by (simp add: stored_def)
qed

end
